theory Spec2Isabelle
  imports Main "HOL-Library.Word"
begin

section \<open>Data model of eckey.cc\<close>

text \<open>
  The file under verification, \<^verbatim>\<open>src/eckey.cc\<close>, is the native half of a scripting-host
  class \<^verbatim>\<open>BitcoinKey\<close>: each method is a thin layer over OpenSSL's EC_KEY, BIGNUM and
  ECDSA routines.  The layer is what is embedded here, function by function.  OpenSSL is
  not part of the repository; the routines whose results the layer only passes on
  (point multiplication, the SEC1 and DER codecs, ECDSA itself, allocation) are the
  fields of a record \<open>openssl\<close> that every embedded function receives as its first
  argument.  The BIGNUM byte conversions and the EC_KEY field setters are simple enough to
  be written out.  \<^verbatim>\<open>Init\<close> (the registration of the class with the host), \<^verbatim>\<open>Generate\<close>,
  \<^verbatim>\<open>GenerateSync\<close> and the destructor are not needed below and are left out.
\<close>

type_synonym byte = "8 word"
type_synonym bytes = "byte list"

text \<open>A BIGNUM made by \<^verbatim>\<open>BN_bin2bn\<close> is never negative: \<open>nat\<close>.  A pointer that may be
  NULL is an \<open>option\<close>.\<close>

datatype EC_POINT = Infinity | Affine nat nat

text \<open>An \<^verbatim>\<open>EC_KEY\<close> container; the group is always secp256k1
  (\<^verbatim>\<open>EC_KEY_new_by_curve_name(NID_secp256k1)\<close>) and is not a field.\<close>

record EC_KEY =
  priv_key :: "nat option"
  pub_key :: "EC_POINT option"

datatype ECDSA_SIG = ECDSA_SIG nat nat

text \<open>
  The containers live in a store.  An address is an index into \<open>slots\<close>; allocation
  appends a slot, \<^verbatim>\<open>EC_KEY_free\<close> empties the slot and is logged in \<open>freed\<close>, so that
  "released exactly once" is a statement about the log.
\<close>

record heap =
  slots :: "EC_KEY option list"
  freed :: "nat list"

text \<open>The members of \<^verbatim>\<open>class BitcoinKey\<close>.\<close>

record BitcoinKey =
  ec :: "nat option"
  lastError :: "string option"
  hasPrivate :: bool
  hasPublic :: bool

text \<open>Values of the scripting host, as far as this file makes or inspects them.\<close>

datatype exn = Error string | TypeError string

datatype jsval =
    Null
  | Undefined
  | Boolean bool
  | Buffer bytes
  | Function nat
  | External BitcoinKey
  | Object BitcoinKey
  | Exception exn

text \<open>
  What a call does: it returns a value, or it throws (\<^verbatim>\<open>VException(msg)\<close> of common.h
  throws \<^verbatim>\<open>Error(msg)\<close>), or it hands OpenSSL a NULL pointer where a container or a
  number is expected (\<open>Fault\<close>).  The key's pointer is NULL only after
  \<^verbatim>\<open>EC_KEY_new_by_curve_name\<close> has failed inside \<open>RegenerateSync\<close>; what each OpenSSL
  routine does with NULL (some return an error, some read through it) is not told apart.
\<close>

datatype 'a outcome = Return 'a | Throw exn | Fault

definition VException :: "string \<Rightarrow> 'a outcome" where
  "VException msg = Throw (Error msg)"

text \<open>The baton of the offloaded verification (\<^verbatim>\<open>verify_sig_baton_t\<close>, declared in
  eckey.h; the fields are the ones eckey.cc assigns).\<close>

record verify_sig_baton_t =
  key :: BitcoinKey
  digest :: bytes
  digestLen :: nat
  digestBuf :: jsval
  sig :: bytes
  sigLen :: nat
  sigBuf :: jsval
  result :: int
  cb :: jsval

section \<open>The OpenSSL routines taken as parameters\<close>

text \<open>
  \<^item> \<open>group_order\<close>: the order of the generator of the bound curve.
  \<^item> \<open>alloc_EC_KEY\<close>, \<open>alloc_BN_CTX\<close>, \<open>alloc_EC_POINT\<close>: whether
    \<^verbatim>\<open>EC_KEY_new_by_curve_name\<close>, \<^verbatim>\<open>BN_CTX_new\<close>, \<^verbatim>\<open>EC_POINT_new\<close> return an object
    (or NULL).
  \<^item> \<open>EC_POINT_mul\<close>: \<^verbatim>\<open>EC_POINT_mul(group, r, n, NULL, NULL, ctx)\<close>, the point
    \<open>n * generator\<close>, or \<open>None\<close> when the call returns 0.
  \<^item> \<open>i2o_ECPublicKey\<close>, \<open>i2d_ECPrivateKey\<close>, \<open>i2d_ECDSA_SIG\<close>: the bytes the encoder
    writes, \<open>None\<close> when it returns 0.
  \<^item> \<open>o2i_ECPublicKey\<close>, \<open>d2i_ECPrivateKey\<close>: called with the address of the live
    container, the input and its length; they return whether the result is non-NULL and
    the container as the call leaves it (they decode in place).
  \<^item> \<open>ECDSA_do_sign\<close>: digest, its length, the container; \<open>None\<close> is a NULL signature.
  \<^item> \<open>ECDSA_verify\<close>: digest, its length, signature, its length, the container; returns
    OpenSSL's \<^verbatim>\<open>int\<close>.
  \<^item> \<open>uninit\<close>: the byte found at each offset of a block fresh from \<^verbatim>\<open>malloc\<close>.
\<close>

record openssl =
  group_order :: nat
  alloc_EC_KEY :: bool
  alloc_BN_CTX :: bool
  alloc_EC_POINT :: bool
  EC_POINT_mul :: "nat option \<Rightarrow> EC_POINT option"
  i2o_ECPublicKey :: "EC_KEY \<Rightarrow> bytes option"
  o2i_ECPublicKey :: "EC_KEY \<Rightarrow> bytes \<Rightarrow> int \<Rightarrow> bool \<times> EC_KEY"
  i2d_ECPrivateKey :: "EC_KEY \<Rightarrow> bytes option"
  d2i_ECPrivateKey :: "EC_KEY \<Rightarrow> bytes \<Rightarrow> int \<Rightarrow> bool \<times> EC_KEY"
  ECDSA_do_sign :: "bytes \<Rightarrow> int \<Rightarrow> EC_KEY \<Rightarrow> ECDSA_SIG option"
  i2d_ECDSA_SIG :: "ECDSA_SIG option \<Rightarrow> bytes option"
  ECDSA_verify :: "bytes \<Rightarrow> int \<Rightarrow> bytes \<Rightarrow> int \<Rightarrow> EC_KEY \<Rightarrow> int"
  uninit :: "nat \<Rightarrow> byte"

text \<open>The \<^verbatim>\<open>int\<close> an encoder returns: the number of bytes, 0 on failure.\<close>

definition encoded_size :: "bytes option \<Rightarrow> int" where
  "encoded_size r = (case r of None \<Rightarrow> 0 | Some bs \<Rightarrow> int (length bs))"

definition encoded_bytes :: "bytes option \<Rightarrow> bytes" where
  "encoded_bytes r = (case r of None \<Rightarrow> [] | Some bs \<Rightarrow> bs)"

section \<open>C integers, memory, BIGNUM\<close>

text \<open>\<^verbatim>\<open>Buffer::Length\<close> is a \<^verbatim>\<open>size_t\<close>; the source stores it in \<^verbatim>\<open>unsigned int\<close> locals and
  passes it to \<^verbatim>\<open>int\<close> parameters (32 bits, two's complement).  The \<^verbatim>\<open>long\<close> parameters of
  the two decoders are taken to hold every length.\<close>

definition uint_of_size :: "nat \<Rightarrow> nat" where
  "uint_of_size n = n mod 2 ^ 32"

definition int_of_uint :: "nat \<Rightarrow> int" where
  "int_of_uint u = (if u < 2 ^ 31 then int u else int u - 2 ^ 32)"

definition int_of_size :: "nat \<Rightarrow> int" where
  "int_of_size n = int_of_uint (uint_of_size n)"

definition malloc :: "openssl \<Rightarrow> nat \<Rightarrow> bytes" where
  "malloc lib n = map (uninit lib) [0..<n]"

text \<open>Writing \<open>data\<close> into a block at offset \<open>off\<close> (the caller keeps it in range).\<close>

definition write_at :: "bytes \<Rightarrow> nat \<Rightarrow> bytes \<Rightarrow> bytes" where
  "write_at block off data = take off block @ data @ drop (off + length data) block"

text \<open>\<^verbatim>\<open>BN_bin2bn(s, len, ret)\<close>: the big-endian value of the first \<open>len\<close> bytes.  A
  negative or too large \<open>len\<close> reads outside the buffer: \<open>None\<close>.\<close>

definition big_endian :: "bytes \<Rightarrow> nat" where
  "big_endian data = foldl (\<lambda>acc b. acc * 256 + unat b) 0 data"

definition BN_bin2bn :: "bytes \<Rightarrow> int \<Rightarrow> nat option" where
  "BN_bin2bn data len =
     (if len < 0 \<or> int (length data) < len then None
      else Some (big_endian (take (nat len) data)))"

fun BN_num_bytes :: "nat \<Rightarrow> nat" where
  "BN_num_bytes n = (if n = 0 then 0 else Suc (BN_num_bytes (n div 256)))"

text \<open>\<^verbatim>\<open>BN_bn2bin(a, to)\<close> writes the big-endian bytes of \<open>a\<close> without leading zeros
  and returns how many it wrote.\<close>

fun BN_bn2bin :: "nat \<Rightarrow> bytes" where
  "BN_bn2bin n = (if n = 0 then [] else BN_bn2bin (n div 256) @ [of_nat (n mod 256)])"

section \<open>The store of containers\<close>

definition deref :: "heap \<Rightarrow> nat option \<Rightarrow> EC_KEY option" where
  "deref h p =
     (case p of None \<Rightarrow> None
      | Some a \<Rightarrow> if a < length (slots h) then slots h ! a else None)"

definition store :: "heap \<Rightarrow> nat option \<Rightarrow> EC_KEY \<Rightarrow> heap" where
  "store h p e =
     (case p of None \<Rightarrow> h | Some a \<Rightarrow> h\<lparr>slots := (slots h)[a := Some e]\<rparr>)"

definition EC_KEY_new_by_curve_name :: "openssl \<Rightarrow> heap \<Rightarrow> heap \<times> nat option" where
  "EC_KEY_new_by_curve_name lib h =
     (if alloc_EC_KEY lib
      then (h\<lparr>slots := slots h @ [Some \<lparr>priv_key = None, pub_key = None\<rparr>]\<rparr>,
            Some (length (slots h)))
      else (h, None))"

text \<open>\<^verbatim>\<open>EC_KEY_free(NULL)\<close> does nothing.\<close>

definition EC_KEY_free :: "heap \<Rightarrow> nat option \<Rightarrow> heap" where
  "EC_KEY_free h p =
     (case p of None \<Rightarrow> h
      | Some a \<Rightarrow> h\<lparr>slots := (slots h)[a := None], freed := freed h @ [a]\<rparr>)"

text \<open>\<^verbatim>\<open>EC_KEY_set_private_key\<close> and \<^verbatim>\<open>EC_KEY_set_public_key\<close> store a copy of their
  argument in the container.\<close>

definition EC_KEY_set_private_key :: "EC_KEY \<Rightarrow> nat option \<Rightarrow> EC_KEY" where
  "EC_KEY_set_private_key e bn = e\<lparr>priv_key := bn\<rparr>"

definition EC_KEY_set_public_key :: "EC_KEY \<Rightarrow> EC_POINT option \<Rightarrow> EC_KEY" where
  "EC_KEY_set_public_key e pt = e\<lparr>pub_key := pt\<rparr>"

section \<open>Construction and accessors\<close>

text \<open>\<^verbatim>\<open>BitcoinKey::BitcoinKey()\<close>.\<close>

definition BitcoinKey_ctor :: "openssl \<Rightarrow> heap \<Rightarrow> heap \<times> BitcoinKey" where
  "BitcoinKey_ctor lib h =
     (let (h', p) = EC_KEY_new_by_curve_name lib h
      in (h', \<lparr>ec = p,
                lastError = (if p = None then Some ''Error from EC_KEY_new_by_curve_name''
                             else None),
                hasPrivate = False,
                hasPublic = False\<rparr>))"

text \<open>\<^verbatim>\<open>BitcoinKey::New(const Arguments&)\<close>, the constructor function of the class
  template, in a construct call (a plain call is turned into one by
  \<^verbatim>\<open>FromConstructorTemplate\<close>).  It does not read \<open>args\<close>.\<close>

definition New :: "openssl \<Rightarrow> heap \<Rightarrow> jsval list \<Rightarrow> jsval outcome \<times> heap" where
  "New lib h args =
     (let (h', k) = BitcoinKey_ctor lib h
      in case lastError k of
           Some msg \<Rightarrow> (VException msg, h')
         | None \<Rightarrow> (Return (Object k), h'))"

text \<open>
  \<^verbatim>\<open>BitcoinKey::GetPrivate\<close>.  \<^verbatim>\<open>BN_num_bytes(bn)\<close> is evaluated before the test
  \<^verbatim>\<open>bn == NULL\<close> and reads through \<open>bn\<close>, so a NULL scalar faults there and the test
  that follows never succeeds.  The block \<open>priv\<close> comes from \<^verbatim>\<open>malloc(32)\<close> and only its
  last \<open>priv_size\<close> bytes are written.
\<close>

definition GetPrivate :: "openssl \<Rightarrow> heap \<Rightarrow> BitcoinKey \<Rightarrow> jsval outcome" where
  "GetPrivate lib h k =
     (if \<not> hasPrivate k then Return Null
      else case deref h (ec k) of
        None \<Rightarrow> Fault
      | Some e \<Rightarrow>
         (let bn = priv_key e
          in case bn of
               None \<Rightarrow> Fault
             | Some v \<Rightarrow>
                (let priv_size = BN_num_bytes v
                 in if bn = None then Return Null
                    else if priv_size > 32 then Return Null
                    else let priv = malloc lib 32;
                             n = length (BN_bn2bin v);
                             priv = write_at priv (32 - priv_size) (BN_bn2bin v)
                         in if n \<noteq> priv_size then Return Null
                            else Return (Buffer (take 32 priv)))))"

text \<open>\<^verbatim>\<open>BitcoinKey::SetPrivate\<close>; \<open>data\<close> is the content of the Buffer assigned.\<close>

definition SetPrivate ::
  "bytes \<Rightarrow> heap \<times> BitcoinKey \<Rightarrow> unit outcome \<times> heap \<times> BitcoinKey" where
  "SetPrivate data st =
     (let (h, k) = st
      in case BN_bin2bn data (int_of_size (length data)) of
           None \<Rightarrow> (Fault, h, k)
         | Some bn \<Rightarrow>
            (case deref h (ec k) of
               None \<Rightarrow> (Fault, h, k)
             | Some e \<Rightarrow>
                (Return (),
                 store h (ec k) (EC_KEY_set_private_key e (Some bn)),
                 k\<lparr>hasPrivate := True\<rparr>)))"

text \<open>\<^verbatim>\<open>BitcoinKey::GetPublic\<close>: the encoder is called once for the size and once into
  a block of that size.\<close>

definition GetPublic :: "openssl \<Rightarrow> heap \<Rightarrow> BitcoinKey \<Rightarrow> jsval outcome" where
  "GetPublic lib h k =
     (if \<not> hasPublic k then Return Null
      else case deref h (ec k) of
        None \<Rightarrow> Fault
      | Some e \<Rightarrow>
         (let pub_size = encoded_size (i2o_ECPublicKey lib e)
          in if pub_size = 0 then Return Null
             else let pub_begin = malloc lib (nat pub_size);
                      pub_begin = write_at pub_begin 0 (encoded_bytes (i2o_ECPublicKey lib e))
                  in if encoded_size (i2o_ECPublicKey lib e) \<noteq> pub_size then Return Null
                     else Return (Buffer (take (nat pub_size) pub_begin))))"

text \<open>\<^verbatim>\<open>BitcoinKey::SetPublic\<close>: OpenSSL decodes into the live container
  (\<^verbatim>\<open>&(key->ec)\<close>); on failure the function returns, with nothing thrown
  (\<^verbatim>\<open>// TODO: Error\<close>).\<close>

definition SetPublic ::
  "openssl \<Rightarrow> bytes \<Rightarrow> heap \<times> BitcoinKey \<Rightarrow> unit outcome \<times> heap \<times> BitcoinKey" where
  "SetPublic lib data st =
     (let (h, k) = st
      in case deref h (ec k) of
           None \<Rightarrow> (Fault, h, k)
         | Some e \<Rightarrow>
            (let (ok, e') = o2i_ECPublicKey lib e data (int (length data));
                 h' = store h (ec k) e'
             in if \<not> ok then (Return (), h', k)
                else (Return (), h', k\<lparr>hasPublic := True\<rparr>)))"

section \<open>Regeneration\<close>

text \<open>\<^verbatim>\<open>EC_KEY_regenerate_key(eckey, priv_key)\<close>, with the container at \<open>eckey\<close> read from
  and written back to the store.  The result is the returned \<^verbatim>\<open>ok\<close>.\<close>

definition EC_KEY_regenerate_key ::
  "openssl \<Rightarrow> heap \<Rightarrow> nat option \<Rightarrow> nat option \<Rightarrow> int \<times> heap" where
  "EC_KEY_regenerate_key lib h eckey bn =
     (case deref h eckey of
        None \<Rightarrow> (0, h)
      | Some e \<Rightarrow>
         if \<not> alloc_BN_CTX lib then (0, h)
         else if \<not> alloc_EC_POINT lib then (0, h)
         else (case EC_POINT_mul lib bn of
                 None \<Rightarrow> (0, h)
               | Some pt \<Rightarrow>
                  (1, store h eckey
                        (EC_KEY_set_public_key (EC_KEY_set_private_key e bn) (Some pt)))))"

text \<open>\<^verbatim>\<open>BitcoinKey::RegenerateSync\<close>.  \<^verbatim>\<open>EC_KEY_get0_private_key(old)\<close> faults on a NULL
  \<open>old\<close>.\<close>

definition RegenerateSync ::
  "openssl \<Rightarrow> heap \<times> BitcoinKey \<Rightarrow> jsval outcome \<times> heap \<times> BitcoinKey" where
  "RegenerateSync lib st =
     (let (h, k) = st
      in if \<not> hasPrivate k then (VException ''Regeneration requires a private key.'', h, k)
         else let old = ec k;
                  (h, p) = EC_KEY_new_by_curve_name lib h;
                  k = k\<lparr>ec := p\<rparr>
              in case deref h old of
                   None \<Rightarrow> (Fault, h, k)
                 | Some e_old \<Rightarrow>
                    (let (ok, h) = EC_KEY_regenerate_key lib h (ec k) (priv_key e_old);
                         k = (if ok = 1 then k\<lparr>hasPublic := True\<rparr> else k);
                         h = EC_KEY_free h old
                     in (Return Undefined, h, k)))"

section \<open>DER export and import\<close>

text \<open>\<^verbatim>\<open>BitcoinKey::ToDER\<close>.  The two tests of \<^verbatim>\<open>!key->hasPrivate || !key->hasPublic\<close> are
  made one after the other, as \<^verbatim>\<open>||\<close> does.\<close>

definition ToDER :: "openssl \<Rightarrow> heap \<Rightarrow> BitcoinKey \<Rightarrow> jsval outcome" where
  "ToDER lib h k =
     (if \<not> hasPrivate k then Return Null
      else if \<not> hasPublic k then Return Null
      else case deref h (ec k) of
        None \<Rightarrow> Fault
      | Some e \<Rightarrow>
         (let der_size = encoded_size (i2d_ECPrivateKey lib e)
          in if der_size = 0 then Return Null
             else let der_begin = malloc lib (nat der_size);
                      der_begin = write_at der_begin 0 (encoded_bytes (i2d_ECPrivateKey lib e))
                  in if encoded_size (i2d_ECPrivateKey lib e) \<noteq> der_size then Return Null
                     else Return (Buffer (take (nat der_size) der_begin))))"

definition is_Buffer :: "jsval \<Rightarrow> bool" where
  "is_Buffer v = (case v of Buffer _ \<Rightarrow> True | _ \<Rightarrow> False)"

definition is_Function :: "jsval \<Rightarrow> bool" where
  "is_Function v = (case v of Function _ \<Rightarrow> True | _ \<Rightarrow> False)"

text \<open>\<^verbatim>\<open>Buffer::Data\<close>, used only behind \<^verbatim>\<open>Buffer::HasInstance\<close>.\<close>

definition Buffer_Data :: "jsval \<Rightarrow> bytes" where
  "Buffer_Data v = (case v of Buffer bs \<Rightarrow> bs | _ \<Rightarrow> [])"

text \<open>
  \<^verbatim>\<open>BitcoinKey::FromDER\<close>.  The key that received the decoded material is wrapped in an
  \<open>External\<close> and given to the class constructor, \<^verbatim>\<open>cons->NewInstance(1, &external)\<close>,
  which is \<open>New\<close>; what \<open>New\<close> gives back is the result.
\<close>

definition FromDER :: "openssl \<Rightarrow> heap \<Rightarrow> jsval list \<Rightarrow> jsval outcome \<times> heap" where
  "FromDER lib h args =
     (if length args \<noteq> 1 then (VException ''One argument expected: der'', h)
      else if \<not> is_Buffer (args ! 0)
        then (VException ''Argument 'der' must be of type Buffer'', h)
      else let (h, k) = BitcoinKey_ctor lib h
           in case lastError k of
                Some msg \<Rightarrow> (VException msg, h)
              | None \<Rightarrow>
                 (let data = Buffer_Data (args ! 0)
                  in case deref h (ec k) of
                       None \<Rightarrow> (Fault, h)
                     | Some e \<Rightarrow>
                        (let (ok, e') = d2i_ECPrivateKey lib e data (int (length data));
                             h = store h (ec k) e'
                         in if \<not> ok
                            then (VException ''Error from d2i_ECPrivateKey(&key, &data, len)'', h)
                            else let k = k\<lparr>hasPrivate := True\<rparr>;
                                     k = k\<lparr>hasPublic := True\<rparr>;
                                     external = External k
                                 in New lib h [external])))"

section \<open>Signing and verification\<close>

text \<open>\<^verbatim>\<open>int BitcoinKey::VerifySignature(digest, digest_len, sig, sig_len)\<close>; \<open>None\<close> is the
  fault on a NULL container.\<close>

definition VerifySignature ::
  "openssl \<Rightarrow> heap \<Rightarrow> BitcoinKey \<Rightarrow> bytes \<Rightarrow> int \<Rightarrow> bytes \<Rightarrow> int \<Rightarrow> int option" where
  "VerifySignature lib h k dgst digest_len sg sig_len =
     (case deref h (ec k) of
        None \<Rightarrow> None
      | Some e \<Rightarrow> Some (ECDSA_verify lib dgst digest_len sg sig_len e))"

text \<open>\<^verbatim>\<open>ECDSA_SIG *BitcoinKey::Sign(digest, digest_len)\<close>; a NULL signature is passed on
  (\<^verbatim>\<open>// TODO: ERROR\<close>).\<close>

definition Sign ::
  "openssl \<Rightarrow> heap \<Rightarrow> BitcoinKey \<Rightarrow> bytes \<Rightarrow> int \<Rightarrow> ECDSA_SIG option option" where
  "Sign lib h k dgst digest_len =
     (case deref h (ec k) of
        None \<Rightarrow> None
      | Some e \<Rightarrow> Some (ECDSA_do_sign lib dgst digest_len e))"

text \<open>\<^verbatim>\<open>BitcoinKey::VerifySignatureSync\<close>.\<close>

definition VerifySignatureSync ::
  "openssl \<Rightarrow> heap \<Rightarrow> BitcoinKey \<Rightarrow> jsval list \<Rightarrow> jsval outcome" where
  "VerifySignatureSync lib h k args =
     (if length args \<noteq> 2 then VException ''Two arguments expected: hash, sig''
      else if \<not> is_Buffer (args ! 0) then VException ''Argument 'hash' must be of type Buffer''
      else if \<not> is_Buffer (args ! 1) then VException ''Argument 'sig' must be of type Buffer''
      else if \<not> hasPublic k then VException ''BitcoinKey does not have a public key set''
      else let hash_data = Buffer_Data (args ! 0);
               sig_data = Buffer_Data (args ! 1);
               hash_len = uint_of_size (length hash_data);
               sig_len = uint_of_size (length sig_data)
           in if hash_len \<noteq> 32
              then VException ''Argument 'hash' must be Buffer of length 32 bytes''
              else case VerifySignature lib h k hash_data (int_of_uint hash_len)
                                        sig_data (int_of_uint sig_len) of
                     None \<Rightarrow> Fault
                   | Some res \<Rightarrow>
                      if res = - 1 then VException ''Error during ECDSA_verify''
                      else if res = 0 then Return (Boolean False)
                      else if res = 1 then Return (Boolean True)
                      else VException ''ECDSA_verify gave undefined return value'')"

text \<open>\<^verbatim>\<open>BitcoinKey::SignSync\<close>.\<close>

definition SignSync ::
  "openssl \<Rightarrow> heap \<Rightarrow> BitcoinKey \<Rightarrow> jsval list \<Rightarrow> jsval outcome" where
  "SignSync lib h k args =
     (if length args \<noteq> 1 then VException ''One argument expected: hash''
      else if \<not> is_Buffer (args ! 0) then VException ''Argument 'hash' must be of type Buffer''
      else if \<not> hasPrivate k then VException ''BitcoinKey does not have a private key set''
      else let hash_data = Buffer_Data (args ! 0);
               hash_len = uint_of_size (length hash_data)
           in if hash_len \<noteq> 32
              then VException ''Argument 'hash' must be Buffer of length 32 bytes''
              else case Sign lib h k hash_data (int_of_uint hash_len) of
                     None \<Rightarrow> Fault
                   | Some sg \<Rightarrow>
                      (let der_size = encoded_size (i2d_ECDSA_SIG lib sg)
                       in if der_size = 0 then Return Null
                          else let der_begin = malloc lib (nat der_size);
                                   der_begin = write_at der_begin 0
                                                 (encoded_bytes (i2d_ECDSA_SIG lib sg))
                               in if encoded_size (i2d_ECDSA_SIG lib sg) \<noteq> der_size
                                  then Return Null
                                  else Return (Buffer (take (nat der_size) der_begin))))"

subsection \<open>The offloaded verification\<close>

text \<open>
  \<^verbatim>\<open>BitcoinKey::VerifySignature(const Arguments&)\<close>, the method \<^verbatim>\<open>verifySignature\<close>: it
  throws, or it queues a baton and returns \<open>Undefined\<close>.  \<^verbatim>\<open>REQ_FUN_ARG(2, cb)\<close> of
  common.h throws a \<open>TypeError\<close> unless argument 2 is a function.
\<close>

definition VerifySignatureAsync ::
  "BitcoinKey \<Rightarrow> jsval list \<Rightarrow> jsval outcome \<times> verify_sig_baton_t option" where
  "VerifySignatureAsync k args =
     (if length args \<noteq> 3
        then (VException ''Three arguments expected: hash, sig, callback'', None)
      else if \<not> is_Buffer (args ! 0)
        then (VException ''Argument 'hash' must be of type Buffer'', None)
      else if \<not> is_Buffer (args ! 1)
        then (VException ''Argument 'sig' must be of type Buffer'', None)
      else if \<not> is_Function (args ! 2)
        then (Throw (TypeError ''Argument 2 must be a function''), None)
      else if \<not> hasPublic k
        then (VException ''BitcoinKey does not have a public key set'', None)
      else let hash_buf = args ! 0;
               sig_buf = args ! 1
           in if length (Buffer_Data hash_buf) \<noteq> 32
              then (VException ''Argument 'hash' must be Buffer of length 32 bytes'', None)
              else (Return Undefined,
                    Some \<lparr>key = k,
                          digest = Buffer_Data hash_buf,
                          digestLen = length (Buffer_Data hash_buf),
                          digestBuf = hash_buf,
                          sig = Buffer_Data sig_buf,
                          sigLen = length (Buffer_Data sig_buf),
                          sigBuf = sig_buf,
                          result = - 1,
                          cb = args ! 2\<rparr>))"

text \<open>\<^verbatim>\<open>BitcoinKey::EIO_VerifySignature\<close>, the work item; \<open>h\<close> is the store when it
  runs.\<close>

definition EIO_VerifySignature ::
  "openssl \<Rightarrow> heap \<Rightarrow> verify_sig_baton_t \<Rightarrow> verify_sig_baton_t option" where
  "EIO_VerifySignature lib h b =
     (case VerifySignature lib h (key b) (digest b) (int_of_size (digestLen b))
                           (sig b) (int_of_size (sigLen b)) of
        None \<Rightarrow> None
      | Some res \<Rightarrow> Some (b\<lparr>result := res\<rparr>))"

text \<open>\<^verbatim>\<open>BitcoinKey::VerifySignatureCallback\<close>: the two arguments \<open>argv\<close> that the
  continuation \<open>cb\<close> is called with.\<close>

definition VerifySignatureCallback :: "verify_sig_baton_t \<Rightarrow> jsval \<times> jsval" where
  "VerifySignatureCallback b =
     (if result b = - 1 then (Exception (TypeError ''Error during ECDSA_verify''), Null)
      else if result b = 0 then (Null, Boolean False)
      else if result b = 1 then (Null, Boolean True)
      else (Exception (TypeError ''ECDSA_verify gave undefined return value''), Null))"

section \<open>A small instance of the parameters\<close>

text \<open>
  To show that the hypotheses of the theorems below can be met, and to run the embedded
  functions on concrete inputs, the record \<open>openssl\<close> is instantiated once: \<open>tiny\<close> is
  ECDSA over the curve \<open>y\<^sup>2 = x\<^sup>3 + 7\<close> (the equation of secp256k1) over the field of 13
  elements.  That curve has seven points, so its group has prime order 7 and every affine
  point generates it.  Coordinates fit one byte, which makes the SEC1 and DER encodings
  short.  Nothing below except the witnesses and the evaluations at concrete inputs
  refers to \<open>tiny\<close>.
\<close>

definition tiny_inv :: "nat \<Rightarrow> nat \<Rightarrow> nat" where
  "tiny_inv m a = a ^ (m - 2) mod m"

definition tiny_on_curve :: "nat \<Rightarrow> nat \<Rightarrow> bool" where
  "tiny_on_curve x y = (x < 13 \<and> y < 13 \<and> (y * y) mod 13 = (x * x * x + 7) mod 13)"

fun tiny_add :: "EC_POINT \<Rightarrow> EC_POINT \<Rightarrow> EC_POINT" where
  "tiny_add Infinity Q = Q"
| "tiny_add (Affine x1 y1) Infinity = Affine x1 y1"
| "tiny_add (Affine x1 y1) (Affine x2 y2) =
     (if x1 = x2 \<and> (y1 + y2) mod 13 = 0 then Infinity
      else let l = (if x1 = x2 then 3 * x1 * x1 * tiny_inv 13 (2 * y1)
                    else (y2 + (13 - y1 mod 13)) * tiny_inv 13 (x2 + (13 - x1 mod 13))) mod 13;
               x3 = (l * l + (13 - x1 mod 13) + (13 - x2 mod 13)) mod 13;
               y3 = (l * (x1 + (13 - x3)) + (13 - y1 mod 13)) mod 13
           in Affine x3 y3)"

fun tiny_mul :: "nat \<Rightarrow> EC_POINT \<Rightarrow> EC_POINT" where
  "tiny_mul n P = (if n = 0 then Infinity else tiny_add P (tiny_mul (n - 1) P))"

definition tiny_G :: EC_POINT where
  "tiny_G = Affine 8 5"

definition tiny_oct2point :: "bytes \<Rightarrow> EC_POINT option" where
  "tiny_oct2point bs =
     (if bs = [0] then Some Infinity
      else if length bs = 3 \<and> bs ! 0 = 4
        then (if tiny_on_curve (unat (bs ! 1)) (unat (bs ! 2))
              then Some (Affine (unat (bs ! 1)) (unat (bs ! 2))) else None)
      else if length bs = 2 \<and> (bs ! 0 = 2 \<or> bs ! 0 = 3)
        then (case filter (\<lambda>y. tiny_on_curve (unat (bs ! 1)) y \<and> y mod 2 = unat (bs ! 0) mod 2)
                          [0..<13] of
                [] \<Rightarrow> None
              | y # _ \<Rightarrow> Some (Affine (unat (bs ! 1)) y))
      else None)"

text \<open>As in OpenSSL, \<open>o2i_ECPublicKey\<close> gives a container without a point a new one
  before it decodes into it.\<close>

definition tiny_o2i_ECPublicKey :: "EC_KEY \<Rightarrow> bytes \<Rightarrow> int \<Rightarrow> bool \<times> EC_KEY" where
  "tiny_o2i_ECPublicKey e data len =
     (let e = (if pub_key e = None then e\<lparr>pub_key := Some Infinity\<rparr> else e)
      in case tiny_oct2point (take (nat len) data) of
           None \<Rightarrow> (False, e)
         | Some P \<Rightarrow> (True, e\<lparr>pub_key := Some P\<rparr>))"

definition tiny_i2o_ECPublicKey :: "EC_KEY \<Rightarrow> bytes option" where
  "tiny_i2o_ECPublicKey e =
     (case pub_key e of
        None \<Rightarrow> None
      | Some Infinity \<Rightarrow> Some [0]
      | Some (Affine x y) \<Rightarrow> Some [4, of_nat x, of_nat y])"

text \<open>The DER of an EC private key: version 1, the scalar, the curve identifier, the
  uncompressed point.\<close>

definition tiny_i2d_ECPrivateKey :: "EC_KEY \<Rightarrow> bytes option" where
  "tiny_i2d_ECPrivateKey e =
     (case (priv_key e, pub_key e) of
        (Some d, Some (Affine x y)) \<Rightarrow>
          if d < 256
          then Some ([0x30, 0x17, 2, 1, 1, 4, 1, of_nat d,
                      0xA0, 7, 6, 5, 0x2B, 0x81, 4, 0, 0x0A,
                      0xA1, 6, 3, 4, 0, 4, of_nat x, of_nat y])
          else None
      | _ \<Rightarrow> None)"

definition tiny_d2i_ECPrivateKey :: "EC_KEY \<Rightarrow> bytes \<Rightarrow> int \<Rightarrow> bool \<times> EC_KEY" where
  "tiny_d2i_ECPrivateKey e data len =
     (let bs = take (nat len) data
      in if length bs = 25 \<and> take 7 bs = [0x30, 0x17, 2, 1, 1, 4, 1]
            \<and> take 15 (drop 8 bs) = [0xA0, 7, 6, 5, 0x2B, 0x81, 4, 0, 0x0A, 0xA1, 6, 3, 4, 0, 4]
            \<and> tiny_on_curve (unat (bs ! 23)) (unat (bs ! 24))
         then (True, e\<lparr>priv_key := Some (unat (bs ! 7)),
                       pub_key := Some (Affine (unat (bs ! 23)) (unat (bs ! 24)))\<rparr>)
         else (False, e))"

text \<open>The DER of a signature whose two integers are below 128.\<close>

definition tiny_i2d_ECDSA_SIG :: "ECDSA_SIG option \<Rightarrow> bytes option" where
  "tiny_i2d_ECDSA_SIG sg =
     (case sg of
        None \<Rightarrow> None
      | Some (ECDSA_SIG r s) \<Rightarrow>
          if r < 128 \<and> s < 128 then Some [0x30, 6, 2, 1, of_nat r, 2, 1, of_nat s] else None)"

definition tiny_d2i_ECDSA_SIG :: "bytes \<Rightarrow> ECDSA_SIG option" where
  "tiny_d2i_ECDSA_SIG bs =
     (if length bs = 8 \<and> take 4 bs = [0x30, 6, 2, 1] \<and> take 2 (drop 5 bs) = [2, 1]
         \<and> bs ! 4 < 128 \<and> bs ! 7 < 128
      then Some (ECDSA_SIG (unat (bs ! 4)) (unat (bs ! 7)))
      else None)"

text \<open>The digest as a number, cut to the three bits of the group order.\<close>

definition tiny_digest :: "bytes \<Rightarrow> int \<Rightarrow> nat" where
  "tiny_digest dgst len =
     (case BN_bin2bn dgst len of
        None \<Rightarrow> 0
      | Some m \<Rightarrow> if 8 * nat len > 3 then m div 2 ^ (8 * nat len - 3) else m)"

text \<open>Signing with the nonce \<open>k\<close> chosen from the message and the key among the values
  for which \<open>r\<close> is not 0; a signature with \<open>s = 0\<close> is refused.\<close>

definition tiny_sign :: "nat \<Rightarrow> nat \<Rightarrow> ECDSA_SIG option" where
  "tiny_sign z d =
     (let k = [1, 2, 5, 6] ! ((z + d) mod 4);
          r = (case tiny_mul k tiny_G of Infinity \<Rightarrow> 0 | Affine x y \<Rightarrow> x mod 7);
          s = (tiny_inv 7 k * (z + r * d)) mod 7
      in if r = 0 \<or> s = 0 then None else Some (ECDSA_SIG r s))"

definition tiny_check :: "nat \<Rightarrow> nat \<Rightarrow> nat \<Rightarrow> EC_POINT \<Rightarrow> int" where
  "tiny_check z r s Q =
     (if r = 0 \<or> 7 \<le> r \<or> s = 0 \<or> 7 \<le> s then 0
      else let w = tiny_inv 7 s;
               u1 = (z * w) mod 7;
               u2 = (r * w) mod 7
           in case tiny_add (tiny_mul u1 tiny_G) (tiny_mul u2 Q) of
                Infinity \<Rightarrow> 0
              | Affine x y \<Rightarrow> if x mod 7 = r then 1 else 0)"

definition tiny_ECDSA_do_sign :: "bytes \<Rightarrow> int \<Rightarrow> EC_KEY \<Rightarrow> ECDSA_SIG option" where
  "tiny_ECDSA_do_sign dgst len e =
     (case priv_key e of
        None \<Rightarrow> None
      | Some d \<Rightarrow> tiny_sign (tiny_digest dgst len) d)"

definition tiny_ECDSA_verify :: "bytes \<Rightarrow> int \<Rightarrow> bytes \<Rightarrow> int \<Rightarrow> EC_KEY \<Rightarrow> int" where
  "tiny_ECDSA_verify dgst len sg sig_len e =
     (case tiny_d2i_ECDSA_SIG (take (nat sig_len) sg) of
        None \<Rightarrow> - 1
      | Some (ECDSA_SIG r s) \<Rightarrow>
         (case pub_key e of
            None \<Rightarrow> - 1
          | Some Q \<Rightarrow> tiny_check (tiny_digest dgst len) r s Q))"

text \<open>The check that a signature made by \<open>tiny_sign\<close> for the scalar \<open>d\<close> passes
  \<open>tiny_check\<close> against the point \<open>d * tiny_G\<close>.\<close>

definition tiny_ok :: "nat \<Rightarrow> nat \<Rightarrow> bool" where
  "tiny_ok z d =
     (case tiny_sign z d of
        None \<Rightarrow> True
      | Some (ECDSA_SIG r s) \<Rightarrow>
          r < 128 \<and> s < 128 \<and> tiny_check z r s (tiny_mul d tiny_G) = 1)"

definition tiny :: openssl where
  "tiny = \<lparr>group_order = 7,
           alloc_EC_KEY = True,
           alloc_BN_CTX = True,
           alloc_EC_POINT = True,
           EC_POINT_mul = (\<lambda>bn. case bn of None \<Rightarrow> Some Infinity
                                 | Some d \<Rightarrow> Some (tiny_mul (d mod 7) tiny_G)),
           i2o_ECPublicKey = tiny_i2o_ECPublicKey,
           o2i_ECPublicKey = tiny_o2i_ECPublicKey,
           i2d_ECPrivateKey = tiny_i2d_ECPrivateKey,
           d2i_ECPrivateKey = tiny_d2i_ECPrivateKey,
           ECDSA_do_sign = tiny_ECDSA_do_sign,
           i2d_ECDSA_SIG = tiny_i2d_ECDSA_SIG,
           ECDSA_verify = tiny_ECDSA_verify,
           uninit = (\<lambda>i. 0xAA)\<rparr>"

section \<open>The event loop around the offloaded verification\<close>

text \<open>
  \<^verbatim>\<open>uv_queue_work\<close> runs the work item on a worker and afterwards the callback on the
  caller's loop.  \<open>verifyAsync\<close> puts the three steps in a row and gives what the
  continuation receives; the key and the store are the same when the work item runs as
  when it was queued (the baton holds a pointer to the key, and the caller must not
  change the key in between).
\<close>

definition verifyAsync ::
  "openssl \<Rightarrow> heap \<Rightarrow> BitcoinKey \<Rightarrow> jsval list \<Rightarrow> (jsval \<times> jsval) outcome" where
  "verifyAsync lib h k args =
     (case VerifySignatureAsync k args of
        (Return v, Some b) \<Rightarrow>
          (case EIO_VerifySignature lib h b of
             None \<Rightarrow> Fault
           | Some b' \<Rightarrow> Return (VerifySignatureCallback b'))
      | (Return v, None) \<Rightarrow> Fault
      | (Throw x, q) \<Rightarrow> Throw x
      | (Fault, q) \<Rightarrow> Fault)"

section \<open>Notions of the specification\<close>

text \<open>
  The specification speaks of three verification outcomes.  What a caller of the
  synchronous method observes, and what the continuation of the offloaded one observes,
  is read off as follows: a verdict, or a failure with its message (thrown, or passed as
  the error argument), or a crash.
\<close>

datatype verdict = Valid | Invalid | Indeterminate

datatype observed = Outcome verdict | Failed string | Crashed

definition message_observed :: "string \<Rightarrow> observed" where
  "message_observed m =
     (if m = ''Error during ECDSA_verify'' then Outcome Indeterminate else Failed m)"

fun sync_observed :: "jsval outcome \<Rightarrow> observed" where
  "sync_observed (Return (Boolean b)) = Outcome (if b then Valid else Invalid)"
| "sync_observed (Return v) = Failed []"
| "sync_observed (Throw (Error m)) = message_observed m"
| "sync_observed (Throw (TypeError m)) = message_observed m"
| "sync_observed Fault = Crashed"

fun async_observed :: "(jsval \<times> jsval) outcome \<Rightarrow> observed" where
  "async_observed (Return (Null, Boolean b)) = Outcome (if b then Valid else Invalid)"
| "async_observed (Return (Exception (Error m), Null)) = message_observed m"
| "async_observed (Return (Exception (TypeError m), Null)) = message_observed m"
| "async_observed (Return argv) = Failed []"
| "async_observed (Throw (Error m)) = message_observed m"
| "async_observed (Throw (TypeError m)) = message_observed m"
| "async_observed Fault = Crashed"

text \<open>
  What the layer needs of the library for a signature to verify: on a container whose
  point is the scalar times the generator, with the scalar in the range of private keys,
  the library's verification accepts the encoding of what the library's signing
  produced; and the encoder returns 0 for a NULL signature.
\<close>

definition ECDSA_sound :: "openssl \<Rightarrow> bool" where
  "ECDSA_sound lib =
     (i2d_ECDSA_SIG lib None = None \<and>
      (\<forall>d P dgst sg der.
        1 \<le> d \<and> d < group_order lib \<and> EC_POINT_mul lib (Some d) = Some P
        \<and> length dgst = 32
        \<and> ECDSA_do_sign lib dgst 32 \<lparr>priv_key = Some d, pub_key = Some P\<rparr> = Some sg
        \<and> i2d_ECDSA_SIG lib (Some sg) = Some der
        \<longrightarrow> ECDSA_verify lib dgst 32 der (int (length der))
                \<lparr>priv_key = Some d, pub_key = Some P\<rparr> = 1))"

section \<open>Concrete states\<close>

text \<open>
  \<open>heap0\<close> is the empty store.  \<open>pair_heap\<close> and \<open>pair_key\<close> are the state after
  constructing a key, assigning the one-byte private key 3 and regenerating, with \<open>tiny\<close>:
  the scalar 3 with its point \<open>3 * tiny_G = (7, 8)\<close>.  \<open>mixed_heap\<close> and \<open>mixed_key\<close> are
  the state after constructing a key, assigning the private key 3 and then the public key
  \<open>04 08 05\<close>, which is the point \<open>tiny_G\<close>, not \<open>3 * tiny_G\<close>.
\<close>

definition heap0 :: heap where
  "heap0 = \<lparr>slots = [], freed = []\<rparr>"

definition pair_heap :: heap where
  "pair_heap = \<lparr>slots = [None, Some \<lparr>priv_key = Some 3, pub_key = Some (Affine 7 8)\<rparr>],
                freed = [0]\<rparr>"

definition pair_key :: BitcoinKey where
  "pair_key = \<lparr>ec = Some 1, lastError = None, hasPrivate = True, hasPublic = True\<rparr>"

definition mixed_heap :: heap where
  "mixed_heap = \<lparr>slots = [Some \<lparr>priv_key = Some 3, pub_key = Some (Affine 8 5)\<rparr>],
                 freed = []\<rparr>"

definition mixed_key :: BitcoinKey where
  "mixed_key = \<lparr>ec = Some 0, lastError = None, hasPrivate = True, hasPublic = True\<rparr>"

text \<open>\<open>tiny\<close> with a point multiplication that fails (it returns 0, as when it cannot
  allocate).\<close>

definition tiny_failing_mul :: openssl where
  "tiny_failing_mul = tiny\<lparr>EC_POINT_mul := (\<lambda>bn. None)\<rparr>"

text \<open>The state after constructing a key with \<open>tiny\<close> and assigning the private key
  3.\<close>

definition private_heap :: heap where
  "private_heap = \<lparr>slots = [Some \<lparr>priv_key = Some 3, pub_key = None\<rparr>], freed = []\<rparr>"

definition private_key :: BitcoinKey where
  "private_key = \<lparr>ec = Some 0, lastError = None, hasPrivate = True, hasPublic = False\<rparr>"

text \<open>The DER that \<open>tiny\<close> writes for the key pair.\<close>

definition pair_der :: bytes where
  "pair_der = [0x30, 0x17, 2, 1, 1, 4, 1, 3, 0xA0, 7, 6, 5, 0x2B, 0x81, 4, 0, 0x0A,
               0xA1, 6, 3, 4, 0, 4, 7, 8]"

definition zero_digest :: bytes where
  "zero_digest = replicate 32 0"

section \<open>Auxiliary facts\<close>

declare BN_num_bytes.simps [simp del] BN_bn2bin.simps [simp del] tiny_mul.simps [simp del]

lemma uint_of_size_small: "n < 2 ^ 32 \<Longrightarrow> uint_of_size n = n"
  by (simp add: uint_of_size_def)

lemma int_of_size_small: "n < 2 ^ 31 \<Longrightarrow> int_of_size n = int n"
  by (simp add: int_of_size_def int_of_uint_def uint_of_size_def)

lemma BN_bin2bn_whole: "BN_bin2bn data (int (length data)) = Some (big_endian data)"
  by (simp add: BN_bin2bn_def)

lemma foldl_zero_bytes:
  "foldl (\<lambda>acc b. acc * 256 + unat b) a (replicate n (0 :: byte)) = a * 256 ^ n"
  by (induction n arbitrary: a) simp_all

lemma big_endian_wide: "big_endian (1 # replicate 32 0) = 2 ^ 256"
  by (simp add: big_endian_def foldl_zero_bytes)

lemma deref_store: "deref h p = Some e \<Longrightarrow> deref (store h p e') p = Some e'"
  by (auto simp: deref_def store_def split: option.splits if_splits)

lemma SetPrivate_eq:
  assumes "deref h (ec k) = Some e" and "length data < 2 ^ 31"
  shows "SetPrivate data (h, k) =
           (Return (), store h (ec k) (e\<lparr>priv_key := Some (big_endian data)\<rparr>),
            k\<lparr>hasPrivate := True\<rparr>)"
  using assms
  by (simp add: SetPrivate_def int_of_size_small BN_bin2bn_whole EC_KEY_set_private_key_def)

lemma ctor_tiny:
  "BitcoinKey_ctor tiny heap0 =
     (\<lparr>slots = [Some \<lparr>priv_key = None, pub_key = None\<rparr>], freed = []\<rparr>,
      \<lparr>ec = Some 0, lastError = None, hasPrivate = False, hasPublic = False\<rparr>)"
  by (simp add: BitcoinKey_ctor_def EC_KEY_new_by_curve_name_def tiny_def heap0_def)

lemma take_write_at_malloc [simp]:
  "take (length b) (write_at (malloc lib (length b)) 0 b) = b"
  by (simp add: write_at_def)

lemma foldl_big_endian_bound:
  "a < 256 ^ m \<Longrightarrow>
   foldl (\<lambda>acc b. acc * 256 + unat b) a (bs :: bytes) < 256 ^ (m + length bs)"
proof (induction bs arbitrary: a m)
  case Nil
  then show ?case by simp
next
  case (Cons b bs)
  have b: "unat b < 256" using unsigned_less [of b, where ?'a = nat] by simp
  from Cons.prems have "Suc a \<le> 256 ^ m" by simp
  then have "Suc a * 256 \<le> 256 ^ m * 256" by (rule mult_le_mono1)
  with b have "a * 256 + unat b < 256 ^ Suc m" by simp
  from Cons.IH [OF this] show ?case by simp
qed

lemma big_endian_bound: "big_endian bs < 256 ^ length bs"
  using foldl_big_endian_bound [of 0 0 bs] by (simp add: big_endian_def)

lemma pair_deref:
  "deref pair_heap (ec pair_key) = Some \<lparr>priv_key = Some 3, pub_key = Some (Affine 7 8)\<rparr>"
  by (simp add: deref_def pair_heap_def pair_key_def)

lemma mixed_deref:
  "deref mixed_heap (ec mixed_key) = Some \<lparr>priv_key = Some 3, pub_key = Some (Affine 8 5)\<rparr>"
  by (simp add: deref_def mixed_heap_def mixed_key_def)

subsection \<open>The instance \<open>tiny\<close>\<close>

lemma tiny_digest_32:
  assumes "length dgst = 32"
  shows "tiny_digest dgst 32 = big_endian dgst div 2 ^ 253"
proof -
  have "BN_bin2bn dgst 32 = Some (big_endian dgst)"
    using assms by (simp add: BN_bin2bn_def)
  then show ?thesis by (simp add: tiny_digest_def)
qed

lemma pow_256_32: "(256 :: nat) ^ 32 = 8 * 2 ^ 253"
  by simp

lemma tiny_digest_bound:
  assumes "length dgst = 32"
  shows "tiny_digest dgst 32 < 8"
proof -
  have "big_endian dgst < 256 ^ 32" using big_endian_bound [of dgst] by (simp only: assms)
  then have "big_endian dgst < 8 * 2 ^ 253" unfolding pow_256_32 .
  then have "big_endian dgst div 2 ^ 253 < 8"
    by (rule less_mult_imp_div_less)
  then show ?thesis unfolding tiny_digest_32 [OF assms] .
qed

lemma tiny_digest_zero: "tiny_digest zero_digest 32 = 0"
proof -
  have "big_endian zero_digest = 0"
    by (simp add: big_endian_def zero_digest_def foldl_zero_bytes)
  then show ?thesis by (simp add: tiny_digest_32 zero_digest_def)
qed

text \<open>Rules that evaluate \<open>tiny_mul\<close> on numerals only (the defining equation would
  unfold without end on a variable).\<close>

lemma tiny_mul_0: "tiny_mul 0 P = Infinity"
  by (simp add: tiny_mul.simps)

lemma tiny_mul_numeral: "tiny_mul (numeral n) P = tiny_add P (tiny_mul (numeral n - 1) P)"
  by (subst tiny_mul.simps) simp

lemma tiny_mul_1: "tiny_mul (Suc 0) P = tiny_add P Infinity"
  by (subst tiny_mul.simps) (simp add: tiny_mul_0)

lemmas tiny_eval = tiny_mul_0 tiny_mul_1 tiny_mul_numeral tiny_G_def tiny_inv_def tiny_sign_def
  tiny_check_def Let_def

text \<open>Every scalar from 1 to 6 against every three-bit digest.\<close>

lemma tiny_ok_all:
  "tiny_ok 0 1" "tiny_ok 1 1" "tiny_ok 2 1" "tiny_ok 3 1" "tiny_ok 4 1" "tiny_ok 5 1"
  "tiny_ok 6 1" "tiny_ok 7 1" "tiny_ok 0 2" "tiny_ok 1 2" "tiny_ok 2 2" "tiny_ok 3 2"
  "tiny_ok 4 2" "tiny_ok 5 2" "tiny_ok 6 2" "tiny_ok 7 2" "tiny_ok 0 3" "tiny_ok 1 3"
  "tiny_ok 2 3" "tiny_ok 3 3" "tiny_ok 4 3" "tiny_ok 5 3" "tiny_ok 6 3" "tiny_ok 7 3"
  "tiny_ok 0 4" "tiny_ok 1 4" "tiny_ok 2 4" "tiny_ok 3 4" "tiny_ok 4 4" "tiny_ok 5 4"
  "tiny_ok 6 4" "tiny_ok 7 4" "tiny_ok 0 5" "tiny_ok 1 5" "tiny_ok 2 5" "tiny_ok 3 5"
  "tiny_ok 4 5" "tiny_ok 5 5" "tiny_ok 6 5" "tiny_ok 7 5" "tiny_ok 0 6" "tiny_ok 1 6"
  "tiny_ok 2 6" "tiny_ok 3 6" "tiny_ok 4 6" "tiny_ok 5 6" "tiny_ok 6 6" "tiny_ok 7 6"
  by (simp_all add: tiny_ok_def tiny_eval)

lemma tiny_sign_check:
  assumes "1 \<le> d" "d < 7" "z < 8" "tiny_sign z d = Some (ECDSA_SIG r s)"
  shows "r < 128 \<and> s < 128 \<and> tiny_check z r s (tiny_mul d tiny_G) = 1"
proof -
  from assms(1,2) have d: "d = 1 \<or> d = 2 \<or> d = 3 \<or> d = 4 \<or> d = 5 \<or> d = 6"
    by arith
  from assms(3)
  have z: "z = 0 \<or> z = 1 \<or> z = 2 \<or> z = 3 \<or> z = 4 \<or> z = 5 \<or> z = 6 \<or> z = 7"
    by arith
  from d z have "tiny_ok z d"
    by (elim disjE) (simp_all only: tiny_ok_all)
  with assms(4) show ?thesis by (simp add: tiny_ok_def)
qed

lemma tiny_sig_roundtrip:
  assumes "r < 128" "s < 128"
  shows "tiny_d2i_ECDSA_SIG [0x30, 6, 2, 1, of_nat r, 2, 1, of_nat s] = Some (ECDSA_SIG r s)"
proof -
  have r: "unat (of_nat r :: byte) = r" using assms by (simp add: unat_of_nat)
  have s: "unat (of_nat s :: byte) = s" using assms by (simp add: unat_of_nat)
  have "(of_nat r :: byte) < 128" "(of_nat s :: byte) < 128"
    using assms r s by (simp_all add: word_less_nat_alt)
  then show ?thesis by (simp add: tiny_d2i_ECDSA_SIG_def r s)
qed

lemma tiny_verify_empty: "ECDSA_verify tiny d dl [] sl e = - 1"
  by (simp add: tiny_def tiny_ECDSA_verify_def tiny_d2i_ECDSA_SIG_def)

subsection \<open>The synchronous verification behind its guards\<close>

lemma VerifySignatureSync_eq:
  assumes "deref h (ec k) = Some e" and "hasPublic k" and "length d = 32"
  shows "VerifySignatureSync lib h k [Buffer d, Buffer s] =
           (let res = ECDSA_verify lib d 32 s (int_of_size (length s)) e
            in if res = - 1 then Throw (Error ''Error during ECDSA_verify'')
               else if res = 0 then Return (Boolean False)
               else if res = 1 then Return (Boolean True)
               else Throw (Error ''ECDSA_verify gave undefined return value''))"
  using assms
  by (simp add: VerifySignatureSync_def VerifySignature_def VException_def is_Buffer_def
      Buffer_Data_def uint_of_size_def int_of_uint_def int_of_size_def Let_def)

section \<open>The private-key assignment\<close>

text \<open>
  Claim C10.  \<open>SetPrivate\<close> never throws and never looks at the value: for a key with a
  live container and any Buffer content (a Buffer is shorter than \<open>2\<^sup>3\<^sup>1\<close> bytes), the call
  returns, \<open>hasPrivate\<close> is true afterwards, and the container holds the big-endian value
  of the bytes, whatever it is: no comparison with the group order is made, and the
  function does not even receive the library record that carries the order.
\<close>

theorem SetPrivate_accepts_every_buffer:
  assumes "deref h (ec k) = Some e" and "length data < 2 ^ 31"
  shows "fst (SetPrivate data (h, k)) = Return ()
       \<and> hasPrivate (snd (snd (SetPrivate data (h, k))))
       \<and> deref (fst (snd (SetPrivate data (h, k)))) (ec (snd (snd (SetPrivate data (h, k)))))
           = Some (e\<lparr>priv_key := Some (big_endian data)\<rparr>)"
  using assms by (simp add: SetPrivate_eq deref_store)

text \<open>The witness: a newly constructed key and the 33-byte buffer \<open>01 00 \<dots> 00\<close>, whose
  value \<open>2\<^sup>2\<^sup>5\<^sup>6\<close> is beyond the group order.\<close>

theorem SetPrivate_accepts_every_buffer_witness:
  "deref (fst (BitcoinKey_ctor tiny heap0)) (ec (snd (BitcoinKey_ctor tiny heap0)))
     = Some \<lparr>priv_key = None, pub_key = None\<rparr>
   \<and> length (1 # replicate 32 (0 :: byte)) < 2 ^ 31
   \<and> group_order tiny \<le> 2 ^ 256
   \<and> fst (SetPrivate (1 # replicate 32 0) (BitcoinKey_ctor tiny heap0)) = Return ()
   \<and> hasPrivate (snd (snd (SetPrivate (1 # replicate 32 0) (BitcoinKey_ctor tiny heap0))))
   \<and> deref (fst (snd (SetPrivate (1 # replicate 32 0) (BitcoinKey_ctor tiny heap0))))
            (ec (snd (snd (SetPrivate (1 # replicate 32 0) (BitcoinKey_ctor tiny heap0)))))
        = Some \<lparr>priv_key = Some (2 ^ 256), pub_key = None\<rparr>"
proof -
  have d: "deref (fst (BitcoinKey_ctor tiny heap0)) (ec (snd (BitcoinKey_ctor tiny heap0)))
     = Some \<lparr>priv_key = None, pub_key = None\<rparr>"
    by (simp add: ctor_tiny deref_def)
  have l: "length (1 # replicate 32 (0 :: byte)) < 2 ^ 31" by simp
  have g: "group_order tiny \<le> 2 ^ 256"
    by (simp add: tiny_def)
  show ?thesis
    using SetPrivate_accepts_every_buffer [OF d l] d l g
    by (simp add: big_endian_wide)
qed

text \<open>
  Claim C9.  \<open>SetPrivate\<close> changes the scalar of the container and the flag
  \<open>hasPrivate\<close>, nothing else: the point in the container and \<open>hasPublic\<close> are as
  before, so on a key that had no public key \<open>GetPublic\<close> still returns \<open>Null\<close>.
\<close>

theorem SetPrivate_leaves_public_material:
  assumes "deref h (ec k) = Some e" and "length data < 2 ^ 31"
  shows "(case SetPrivate data (h, k) of
            (out, h', k') \<Rightarrow>
              out = Return ()
            \<and> hasPrivate k'
            \<and> hasPublic k' = hasPublic k
            \<and> map_option priv_key (deref h' (ec k')) = Some (Some (big_endian data))
            \<and> map_option pub_key (deref h' (ec k')) = Some (pub_key e)
            \<and> (\<not> hasPublic k \<longrightarrow> GetPublic lib h' k' = Return Null))"
  using assms by (simp add: SetPrivate_eq deref_store GetPublic_def)

text \<open>The witness: a newly constructed key, assigned the one-byte private key 3.\<close>

theorem SetPrivate_leaves_public_material_witness:
  "(case BitcoinKey_ctor tiny heap0 of
      (h, k) \<Rightarrow>
        deref h (ec k) = Some \<lparr>priv_key = None, pub_key = None\<rparr>
      \<and> length [3 :: byte] < 2 ^ 31
      \<and> \<not> hasPublic k
      \<and> (case SetPrivate [3] (h, k) of
            (out, h', k') \<Rightarrow>
              out = Return ()
            \<and> hasPrivate k'
            \<and> hasPublic k' = hasPublic k
            \<and> map_option priv_key (deref h' (ec k')) = Some (Some 3)
            \<and> map_option pub_key (deref h' (ec k')) = Some None
            \<and> GetPublic tiny h' k' = Return Null))"
proof -
  obtain h k where hk: "BitcoinKey_ctor tiny heap0 = (h, k)"
    by (cases "BitcoinKey_ctor tiny heap0")
  have d: "deref h (ec k) = Some \<lparr>priv_key = None, pub_key = None\<rparr>"
    using hk by (auto simp: ctor_tiny deref_def)
  have l: "length [3 :: byte] < 2 ^ 31" by simp
  have p: "\<not> hasPublic k" using hk by (auto simp: ctor_tiny)
  show ?thesis
    using SetPrivate_leaves_public_material [OF d l, of tiny] d l p hk
    by (auto simp: big_endian_def)
qed

section \<open>Signing and verification\<close>

subsection \<open>Facts about the instance and the signing method\<close>

lemma tiny_sound: "ECDSA_sound tiny"
  unfolding ECDSA_sound_def
proof (intro conjI allI impI)
  show "i2d_ECDSA_SIG tiny None = None" by (simp add: tiny_def tiny_i2d_ECDSA_SIG_def)
next
  fix d P dgst sg der
  assume a: "1 \<le> d \<and> d < group_order tiny \<and> EC_POINT_mul tiny (Some d) = Some P
        \<and> length dgst = 32
        \<and> ECDSA_do_sign tiny dgst 32 \<lparr>priv_key = Some d, pub_key = Some P\<rparr> = Some sg
        \<and> i2d_ECDSA_SIG tiny (Some sg) = Some der"
  obtain r s where sg: "sg = ECDSA_SIG r s" by (cases sg)
  from a have d: "1 \<le> d" "d < 7" by (simp_all add: tiny_def)
  from a d have P: "P = tiny_mul d tiny_G" by (auto simp: tiny_def)
  from a have z: "tiny_digest dgst 32 < 8" by (simp add: tiny_digest_bound)
  from a have "tiny_sign (tiny_digest dgst 32) d = Some (ECDSA_SIG r s)"
    by (simp add: tiny_def tiny_ECDSA_do_sign_def sg)
  from tiny_sign_check [OF d z this]
  have c: "r < 128" "s < 128" "tiny_check (tiny_digest dgst 32) r s (tiny_mul d tiny_G) = 1"
    by simp_all
  from a c have der: "der = [0x30, 6, 2, 1, of_nat r, 2, 1, of_nat s]"
    by (auto simp: tiny_def tiny_i2d_ECDSA_SIG_def sg)
  have t: "take (nat (int (length der))) der = der" by simp
  have "tiny_ECDSA_verify dgst 32 der (int (length der)) \<lparr>priv_key = Some d, pub_key = Some P\<rparr>
          = tiny_check (tiny_digest dgst 32) r s P"
    unfolding tiny_ECDSA_verify_def t
    by (simp add: der tiny_sig_roundtrip [OF c(1,2)])
  with c(3) show "ECDSA_verify tiny dgst 32 der (int (length der))
          \<lparr>priv_key = Some d, pub_key = Some P\<rparr> = 1"
    by (simp add: tiny_def P)
qed

lemma SignSync_eq:
  assumes "deref h (ec k) = Some e" and "hasPrivate k" and "length d = 32"
  shows "SignSync lib h k [Buffer d] =
           (case i2d_ECDSA_SIG lib (ECDSA_do_sign lib d 32 e) of
              None \<Rightarrow> Return Null
            | Some der \<Rightarrow> if der = [] then Return Null else Return (Buffer der))"
  using assms
  by (simp add: SignSync_def Sign_def VException_def is_Buffer_def Buffer_Data_def
      uint_of_size_def int_of_uint_def encoded_size_def encoded_bytes_def Let_def
      split: option.splits)

lemma tiny_mul_3: "tiny_mul 3 tiny_G = Affine 7 8"
  by (simp add: tiny_eval)

lemma sign_pair:
  "SignSync tiny pair_heap pair_key [Buffer zero_digest] = Return (Buffer [0x30, 6, 2, 1, 1, 2, 1, 4])"
proof -
  have f: "hasPrivate pair_key" by (simp add: pair_key_def)
  have l: "length zero_digest = 32" by (simp add: zero_digest_def)
  have s: "tiny_sign 0 3 = Some (ECDSA_SIG 1 4)" by (simp add: tiny_eval)
  show ?thesis
    unfolding SignSync_eq [OF pair_deref f l]
    by (simp add: tiny_def tiny_ECDSA_do_sign_def tiny_digest_zero s tiny_i2d_ECDSA_SIG_def)
qed

lemma verify_pair:
  "VerifySignatureSync tiny pair_heap pair_key
     [Buffer zero_digest, Buffer [0x30, 6, 2, 1, 1, 2, 1, 4]] = Return (Boolean True)"
proof -
  have f: "hasPublic pair_key" by (simp add: pair_key_def)
  have l: "length zero_digest = 32" by (simp add: zero_digest_def)
  have d: "tiny_d2i_ECDSA_SIG [0x30, 6, 2, 1, 1, 2, 1, 4] = Some (ECDSA_SIG 1 4)"
    by (simp add: tiny_d2i_ECDSA_SIG_def)
  have c: "tiny_check 0 (Suc 0) 4 (Affine 7 8) = 1" by (simp add: tiny_eval)
  show ?thesis
    unfolding VerifySignatureSync_eq [OF pair_deref f l]
    by (simp add: tiny_def tiny_ECDSA_verify_def int_of_size_def int_of_uint_def
        uint_of_size_def d tiny_digest_zero c)
qed

lemma sign_mixed:
  "SignSync tiny mixed_heap mixed_key [Buffer zero_digest] = Return (Buffer [0x30, 6, 2, 1, 1, 2, 1, 4])"
proof -
  have f: "hasPrivate mixed_key" by (simp add: mixed_key_def)
  have l: "length zero_digest = 32" by (simp add: zero_digest_def)
  have s: "tiny_sign 0 3 = Some (ECDSA_SIG 1 4)" by (simp add: tiny_eval)
  show ?thesis
    unfolding SignSync_eq [OF mixed_deref f l]
    by (simp add: tiny_def tiny_ECDSA_do_sign_def tiny_digest_zero s tiny_i2d_ECDSA_SIG_def)
qed

lemma verify_mixed:
  "VerifySignatureSync tiny mixed_heap mixed_key
     [Buffer zero_digest, Buffer [0x30, 6, 2, 1, 1, 2, 1, 4]] = Return (Boolean False)"
proof -
  have f: "hasPublic mixed_key" by (simp add: mixed_key_def)
  have l: "length zero_digest = 32" by (simp add: zero_digest_def)
  have d: "tiny_d2i_ECDSA_SIG [0x30, 6, 2, 1, 1, 2, 1, 4] = Some (ECDSA_SIG 1 4)"
    by (simp add: tiny_d2i_ECDSA_SIG_def)
  have c: "tiny_check 0 (Suc 0) 4 (Affine 8 5) = 0" by (simp add: tiny_eval)
  show ?thesis
    unfolding VerifySignatureSync_eq [OF mixed_deref f l]
    by (simp add: tiny_def tiny_ECDSA_verify_def int_of_size_def int_of_uint_def
        uint_of_size_def d tiny_digest_zero c)
qed

lemma private_3_state:
  "snd (SetPrivate [3] (BitcoinKey_ctor tiny heap0))
     = (\<lparr>slots = [Some \<lparr>priv_key = Some 3, pub_key = None\<rparr>], freed = []\<rparr>,
        \<lparr>ec = Some 0, lastError = None, hasPrivate = True, hasPublic = False\<rparr>)"
  unfolding ctor_tiny
  by (simp add: SetPrivate_def int_of_size_def int_of_uint_def uint_of_size_def BN_bin2bn_def
      big_endian_def deref_def store_def EC_KEY_set_private_key_def)

lemma mixed_reachable:
  "SetPublic tiny [4, 8, 5] (snd (SetPrivate [3] (BitcoinKey_ctor tiny heap0)))
     = (Return (), mixed_heap, mixed_key)"
  unfolding private_3_state
  by (simp add: SetPublic_def deref_def store_def tiny_def tiny_o2i_ECPublicKey_def
      tiny_oct2point_def tiny_on_curve_def mixed_heap_def mixed_key_def)

subsection \<open>The length of the digest\<close>

text \<open>
  Claim C8.  With the key material the method asks for, a digest Buffer whose length is
  not 32 makes \<open>SignSync\<close>, \<open>VerifySignatureSync\<close> and the queueing half of the offloaded
  verification throw "Argument 'hash' must be Buffer of length 32 bytes"; no signature is
  made, no verdict given and no work queued.  The synchronous methods keep the length in
  an \<^verbatim>\<open>unsigned int\<close>, so the statement is for lengths below \<open>2\<^sup>3\<^sup>2\<close>, which every
  Buffer of the host has.
\<close>

theorem wrong_digest_length_is_rejected:
  assumes "length d \<noteq> 32" and "length d < 2 ^ 32"
  shows "(hasPrivate k \<longrightarrow>
            SignSync lib h k [Buffer d]
              = Throw (Error ''Argument 'hash' must be Buffer of length 32 bytes''))
       \<and> (hasPublic k \<longrightarrow>
            VerifySignatureSync lib h k [Buffer d, Buffer s]
              = Throw (Error ''Argument 'hash' must be Buffer of length 32 bytes''))
       \<and> (hasPublic k \<longrightarrow>
            VerifySignatureAsync k [Buffer d, Buffer s, Function f]
              = (Throw (Error ''Argument 'hash' must be Buffer of length 32 bytes''), None))"
  using assms
  by (simp add: SignSync_def VerifySignatureSync_def VerifySignatureAsync_def VException_def
      is_Buffer_def is_Function_def Buffer_Data_def uint_of_size_small)

text \<open>The witness: a digest of 31 bytes on the key pair.\<close>

theorem wrong_digest_length_is_rejected_witness:
  "length (replicate 31 (0 :: byte)) \<noteq> 32 \<and> length (replicate 31 (0 :: byte)) < 2 ^ 32
   \<and> hasPrivate pair_key \<and> hasPublic pair_key
   \<and> SignSync tiny pair_heap pair_key [Buffer (replicate 31 0)]
        = Throw (Error ''Argument 'hash' must be Buffer of length 32 bytes'')
   \<and> VerifySignatureSync tiny pair_heap pair_key [Buffer (replicate 31 0), Buffer []]
        = Throw (Error ''Argument 'hash' must be Buffer of length 32 bytes'')
   \<and> VerifySignatureAsync pair_key [Buffer (replicate 31 0), Buffer [], Function 0]
        = (Throw (Error ''Argument 'hash' must be Buffer of length 32 bytes''), None)"
proof -
  have n: "length (replicate 31 (0 :: byte)) \<noteq> 32" by simp
  have l: "length (replicate 31 (0 :: byte)) < 2 ^ 32" by simp
  have p: "hasPrivate pair_key \<and> hasPublic pair_key" by (simp add: pair_key_def)
  show ?thesis
    using wrong_digest_length_is_rejected [OF n l, of pair_key tiny pair_heap "[]" 0] n l p
    by simp
qed

subsection \<open>The outcomes of the synchronous verification\<close>

text \<open>
  Claim C2, as the code has it.  For a key with a public key and a live container, a
  32-byte digest and any signature bytes, \<open>VerifySignatureSync\<close> returns \<open>true\<close> exactly
  when \<^verbatim>\<open>ECDSA_verify\<close> returns 1, returns \<open>false\<close> exactly when it returns 0, and
  throws "Error during ECDSA_verify" exactly when it returns -1; any other value throws
  "ECDSA_verify gave undefined return value".  The three outcomes are distinguishable,
  but the indeterminate one is a thrown error, not a returned value.
\<close>

theorem VerifySignatureSync_three_outcomes:
  assumes "deref h (ec k) = Some e" and "hasPublic k" and "length d = 32"
  shows "(VerifySignatureSync lib h k [Buffer d, Buffer s] = Return (Boolean True)
            \<longleftrightarrow> ECDSA_verify lib d 32 s (int_of_size (length s)) e = 1)
       \<and> (VerifySignatureSync lib h k [Buffer d, Buffer s] = Return (Boolean False)
            \<longleftrightarrow> ECDSA_verify lib d 32 s (int_of_size (length s)) e = 0)
       \<and> (VerifySignatureSync lib h k [Buffer d, Buffer s]
              = Throw (Error ''Error during ECDSA_verify'')
            \<longleftrightarrow> ECDSA_verify lib d 32 s (int_of_size (length s)) e = - 1)
       \<and> (VerifySignatureSync lib h k [Buffer d, Buffer s]
              = Throw (Error ''ECDSA_verify gave undefined return value'')
            \<longleftrightarrow> ECDSA_verify lib d 32 s (int_of_size (length s)) e \<notin> {1, 0, - 1})"
  by (simp add: VerifySignatureSync_eq [OF assms] Let_def)

text \<open>The witness: the key pair, the zero digest and an empty signature, which
  \<open>tiny\<close> cannot decode.\<close>

theorem VerifySignatureSync_three_outcomes_witness:
  "deref pair_heap (ec pair_key) = Some \<lparr>priv_key = Some 3, pub_key = Some (Affine 7 8)\<rparr>
   \<and> hasPublic pair_key \<and> length zero_digest = 32
   \<and> ECDSA_verify tiny zero_digest 32 [] (int_of_size (length ([] :: bytes)))
        \<lparr>priv_key = Some 3, pub_key = Some (Affine 7 8)\<rparr> = - 1
   \<and> VerifySignatureSync tiny pair_heap pair_key [Buffer zero_digest, Buffer []]
        \<noteq> Return (Boolean True)
   \<and> VerifySignatureSync tiny pair_heap pair_key [Buffer zero_digest, Buffer []]
        \<noteq> Return (Boolean False)
   \<and> VerifySignatureSync tiny pair_heap pair_key [Buffer zero_digest, Buffer []]
        = Throw (Error ''Error during ECDSA_verify'')"
proof -
  have p: "hasPublic pair_key" by (simp add: pair_key_def)
  have l: "length zero_digest = 32" by (simp add: zero_digest_def)
  show ?thesis
    using VerifySignatureSync_three_outcomes [OF pair_deref p l, of tiny "[]"] pair_deref p l
    by (simp add: tiny_verify_empty)
qed

text \<open>
  Claim C2 as stated fails: for the empty signature, malformed DER, the method throws;
  it does not return an outcome value.
\<close>

theorem indeterminate_is_thrown:
  "VerifySignatureSync tiny pair_heap pair_key [Buffer zero_digest, Buffer []]
     = Throw (Error ''Error during ECDSA_verify'')"
proof -
  have p: "hasPublic pair_key" by (simp add: pair_key_def)
  have l: "length zero_digest = 32" by (simp add: zero_digest_def)
  show ?thesis
    by (simp add: VerifySignatureSync_eq [OF pair_deref p l] tiny_verify_empty)
qed

subsection \<open>The offloaded verification against the synchronous one\<close>

text \<open>
  Claim C3.  For every key, every 32-byte digest and every signature, what the
  continuation of the offloaded verification observes is what the caller of the
  synchronous verification observes: the same verdict, or the same failure message, or in
  both cases a fault.  A key without a public key makes both throw before any work is
  queued.
\<close>

theorem verifyAsync_same_outcome:
  assumes "length d = 32"
  shows "async_observed (verifyAsync lib h k [Buffer d, Buffer s, Function f])
           = sync_observed (VerifySignatureSync lib h k [Buffer d, Buffer s])"
  using assms
  by (simp add: verifyAsync_def VerifySignatureAsync_def EIO_VerifySignature_def
      VerifySignatureCallback_def VerifySignatureSync_def VerifySignature_def VException_def
      is_Buffer_def is_Function_def Buffer_Data_def uint_of_size_def int_of_size_def
      message_observed_def split: option.splits)

text \<open>The witness: a valid signature on the key pair is \<open>Valid\<close> on both paths.\<close>

theorem verifyAsync_same_outcome_witness:
  "length zero_digest = 32
   \<and> async_observed (verifyAsync tiny pair_heap pair_key
         [Buffer zero_digest, Buffer [0x30, 6, 2, 1, 1, 2, 1, 4], Function 0]) = Outcome Valid
   \<and> sync_observed (VerifySignatureSync tiny pair_heap pair_key
         [Buffer zero_digest, Buffer [0x30, 6, 2, 1, 1, 2, 1, 4]]) = Outcome Valid"
proof -
  have l: "length zero_digest = 32" by (simp add: zero_digest_def)
  show ?thesis
    using verifyAsync_same_outcome [OF l, of tiny pair_heap pair_key
        "[0x30, 6, 2, 1, 1, 2, 1, 4]" 0] l
    by (simp add: verify_pair)
qed

subsection \<open>Signing, then verifying\<close>

text \<open>
  Claim C1, as the code has it.  Let the library be sound in the sense of \<open>ECDSA_sound\<close>.
  For a key whose container holds a scalar \<open>d\<close> between 1 and the group order together
  with the point \<open>d\<close> times the generator, and a 32-byte digest: if \<open>SignSync\<close> returns a
  signature, then \<open>VerifySignatureSync\<close> of the digest and that signature returns \<open>true\<close>.
\<close>

theorem sign_then_verify_on_matching_pair:
  assumes sound: "ECDSA_sound lib"
    and live: "deref h (ec k) = Some \<lparr>priv_key = Some d, pub_key = Some P\<rparr>"
    and range: "1 \<le> d" "d < group_order lib"
    and match: "EC_POINT_mul lib (Some d) = Some P"
    and flags: "hasPrivate k" "hasPublic k"
    and len: "length dgst = 32"
    and sign: "SignSync lib h k [Buffer dgst] = Return (Buffer sg)"
    and buf: "length sg < 2 ^ 31"
  shows "VerifySignatureSync lib h k [Buffer dgst, Buffer sg] = Return (Boolean True)"
proof -
  let ?e = "\<lparr>priv_key = Some d, pub_key = Some P\<rparr>"
  from sign have der: "i2d_ECDSA_SIG lib (ECDSA_do_sign lib dgst 32 ?e) = Some sg"
    unfolding SignSync_eq [OF live flags(1) len]
    by (auto split: option.splits if_splits)
  from sound have none: "i2d_ECDSA_SIG lib None = None"
    by (simp add: ECDSA_sound_def)
  with der obtain sgv where sgv: "ECDSA_do_sign lib dgst 32 ?e = Some sgv"
    by (cases "ECDSA_do_sign lib dgst 32 ?e") auto
  from sound range match len sgv der
  have "ECDSA_verify lib dgst 32 sg (int (length sg)) ?e = 1"
    unfolding ECDSA_sound_def by simp
  then show ?thesis
    by (simp add: VerifySignatureSync_eq [OF live flags(2) len] int_of_size_small [OF buf])
qed

text \<open>The witness: the key pair of \<open>tiny\<close> with scalar 3 and the zero digest.\<close>

theorem sign_then_verify_on_matching_pair_witness:
  "deref pair_heap (ec pair_key) = Some \<lparr>priv_key = Some 3, pub_key = Some (Affine 7 8)\<rparr>
   \<and> (1 :: nat) \<le> 3 \<and> 3 < group_order tiny
   \<and> EC_POINT_mul tiny (Some 3) = Some (Affine 7 8)
   \<and> hasPrivate pair_key \<and> hasPublic pair_key
   \<and> length zero_digest = 32
   \<and> SignSync tiny pair_heap pair_key [Buffer zero_digest]
        = Return (Buffer [0x30, 6, 2, 1, 1, 2, 1, 4])
   \<and> length [0x30, 6, 2, 1, 1, 2, 1, 4 :: byte] < 2 ^ 31
   \<and> VerifySignatureSync tiny pair_heap pair_key
        [Buffer zero_digest, Buffer [0x30, 6, 2, 1, 1, 2, 1, 4]] = Return (Boolean True)"
proof -
  have r: "(1 :: nat) \<le> 3" "3 < group_order tiny" by (simp_all add: tiny_def)
  have m: "EC_POINT_mul tiny (Some 3) = Some (Affine 7 8)"
    by (simp add: tiny_def tiny_mul_3)
  have f: "hasPrivate pair_key" "hasPublic pair_key" by (simp_all add: pair_key_def)
  have l: "length zero_digest = 32" by (simp add: zero_digest_def)
  have b: "length [0x30, 6, 2, 1, 1, 2, 1, 4 :: byte] < 2 ^ 31" by simp
  show ?thesis
    using sign_then_verify_on_matching_pair [OF tiny_sound pair_deref r m f l sign_pair b]
      pair_deref r m f l sign_pair b
    by simp
qed

text \<open>
  Claim C1 as stated fails, because both flags of a key can be set while its point is
  not the one of its scalar: a key assigned the private key 3 and then the public key
  \<open>tiny_G\<close> signs the zero digest, and verifying that signature on the same key returns
  \<open>false\<close>.
\<close>

theorem sign_then_verify_on_mismatched_pair:
  "snd (SetPublic tiny [4, 8, 5] (snd (SetPrivate [3] (BitcoinKey_ctor tiny heap0))))
     = (mixed_heap, mixed_key)
   \<and> hasPrivate mixed_key \<and> hasPublic mixed_key \<and> length zero_digest = 32
   \<and> SignSync tiny mixed_heap mixed_key [Buffer zero_digest]
        = Return (Buffer [0x30, 6, 2, 1, 1, 2, 1, 4])
   \<and> VerifySignatureSync tiny mixed_heap mixed_key
        [Buffer zero_digest, Buffer [0x30, 6, 2, 1, 1, 2, 1, 4]] = Return (Boolean False)"
proof -
  have f: "hasPrivate mixed_key \<and> hasPublic mixed_key" by (simp add: mixed_key_def)
  have l: "length zero_digest = 32" by (simp add: zero_digest_def)
  show ?thesis
    using mixed_reachable sign_mixed verify_mixed f l by simp
qed

section \<open>Regeneration of the public key\<close>

lemma private_reachable:
  "snd (SetPrivate [3] (BitcoinKey_ctor tiny heap0)) = (private_heap, private_key)"
  unfolding ctor_tiny
  by (simp add: SetPrivate_def int_of_size_def int_of_uint_def uint_of_size_def BN_bin2bn_def
      big_endian_def deref_def store_def EC_KEY_set_private_key_def private_heap_def
      private_key_def)

lemma RegenerateSync_success:
  assumes "hasPrivate k" and "ec k = Some a" and "deref h (Some a) = Some e"
    and "alloc_EC_KEY lib" and "alloc_BN_CTX lib" and "alloc_EC_POINT lib"
    and "EC_POINT_mul lib (priv_key e) = Some P"
  shows "RegenerateSync lib (h, k) =
           (Return Undefined,
            \<lparr>slots = (slots h @ [Some \<lparr>priv_key = priv_key e, pub_key = Some P\<rparr>])[a := None],
              freed = freed h @ [a]\<rparr>,
            k\<lparr>ec := Some (length (slots h)), hasPublic := True\<rparr>)"
  using assms
  by (auto simp: RegenerateSync_def EC_KEY_new_by_curve_name_def EC_KEY_regenerate_key_def
      EC_KEY_free_def EC_KEY_set_private_key_def EC_KEY_set_public_key_def deref_def store_def
      nth_append Let_def split: if_splits)

lemma RegenerateSync_failure:
  assumes "hasPrivate k" and "ec k = Some a" and "deref h (Some a) = Some e"
    and "\<not> (alloc_EC_KEY lib \<and> alloc_BN_CTX lib \<and> alloc_EC_POINT lib
            \<and> EC_POINT_mul lib (priv_key e) \<noteq> None)"
  shows "RegenerateSync lib (h, k) =
           (Return Undefined,
            \<lparr>slots = (if alloc_EC_KEY lib
                       then slots h @ [Some \<lparr>priv_key = None, pub_key = None\<rparr>]
                       else slots h)[a := None],
              freed = freed h @ [a]\<rparr>,
            k\<lparr>ec := (if alloc_EC_KEY lib then Some (length (slots h)) else None)\<rparr>)"
  using assms
  by (auto simp: RegenerateSync_def EC_KEY_new_by_curve_name_def EC_KEY_regenerate_key_def
      EC_KEY_free_def EC_KEY_set_private_key_def EC_KEY_set_public_key_def deref_def store_def
      nth_append Let_def split: if_splits option.splits)

lemma private_deref:
  "deref private_heap (Some 0) = Some \<lparr>priv_key = Some 3, pub_key = None\<rparr>"
  by (simp add: deref_def private_heap_def)

lemma pair_reachable:
  "RegenerateSync tiny (private_heap, private_key) = (Return Undefined, pair_heap, pair_key)"
proof -
  have p: "hasPrivate private_key" "ec private_key = Some 0" by (simp_all add: private_key_def)
  have a: "alloc_EC_KEY tiny" "alloc_BN_CTX tiny" "alloc_EC_POINT tiny"
    by (simp_all add: tiny_def)
  have m: "EC_POINT_mul tiny (priv_key \<lparr>priv_key = Some 3, pub_key = None\<rparr>) = Some (Affine 7 8)"
    by (simp add: tiny_def tiny_mul_3)
  show ?thesis
    unfolding RegenerateSync_success [OF p private_deref a m]
    by (simp add: private_heap_def private_key_def pair_heap_def pair_key_def)
qed

text \<open>After the regeneration the public key is there: \<open>04 07 08\<close>, the point
  \<open>(7, 8)\<close>.\<close>

lemma GetPublic_after_regeneration:
  "GetPublic tiny pair_heap pair_key = Return (Buffer [4, 7, 8])"
proof -
  have f: "hasPublic pair_key" by (simp add: pair_key_def)
  have e: "i2o_ECPublicKey tiny \<lparr>priv_key = Some 3, pub_key = Some (Affine 7 8)\<rparr>
             = Some [4, 7, 8]"
    by (simp add: tiny_def tiny_i2o_ECPublicKey_def)
  show ?thesis
    by (simp add: GetPublic_def f pair_deref e encoded_size_def encoded_bytes_def write_at_def
        malloc_def)
qed

lemma failed_regeneration:
  "RegenerateSync tiny_failing_mul (private_heap, private_key) =
     (Return Undefined,
      \<lparr>slots = [None, Some \<lparr>priv_key = None, pub_key = None\<rparr>], freed = [0]\<rparr>,
      \<lparr>ec = Some 1, lastError = None, hasPrivate = True, hasPublic = False\<rparr>)"
proof -
  have p: "hasPrivate private_key" "ec private_key = Some 0" by (simp_all add: private_key_def)
  have f: "\<not> (alloc_EC_KEY tiny_failing_mul \<and> alloc_BN_CTX tiny_failing_mul
              \<and> alloc_EC_POINT tiny_failing_mul
              \<and> EC_POINT_mul tiny_failing_mul (priv_key \<lparr>priv_key = Some 3, pub_key = None\<rparr>)
                   \<noteq> None)"
    by (simp add: tiny_failing_mul_def)
  have a: "alloc_EC_KEY tiny_failing_mul" by (simp add: tiny_failing_mul_def tiny_def)
  show ?thesis
    unfolding RegenerateSync_failure [OF p private_deref f]
    by (simp add: a private_heap_def private_key_def)
qed

text \<open>
  Claim C4, as the code has it.  For a key with \<open>hasPrivate\<close> whose container is live at
  address \<open>a\<close>, \<open>RegenerateSync\<close> returns \<open>Undefined\<close> and \<open>hasPrivate\<close> stays.  In every
  case, whether the recomputation succeeds or not, the key's container is replaced: the
  key ends on the result of \<^verbatim>\<open>EC_KEY_new_by_curve_name\<close>, which is a container at a new
  address (or NULL when none can be made), never on the old one; and in every case the old
  container is released exactly once (one entry \<open>a\<close> is added to the log of releases, and
  the slot is empty afterwards).  When the point multiplication succeeds on a new
  container, that container holds the old scalar and the recomputed point, and
  \<open>hasPublic\<close> is true.  When the recomputation does not succeed, \<open>hasPublic\<close> is as
  before and the new container, if there is one, holds neither scalar nor point.
\<close>

theorem RegenerateSync_effects:
  assumes "hasPrivate k" and "ec k = Some a" and "deref h (Some a) = Some e"
  shows "(case RegenerateSync lib (h, k) of
            (out, h', k') \<Rightarrow>
              out = Return Undefined
            \<and> freed h' = freed h @ [a]
            \<and> deref h' (Some a) = None
            \<and> hasPrivate k'
            \<and> ec k' = (if alloc_EC_KEY lib then Some (length (slots h)) else None)
            \<and> ec k' \<noteq> ec k
            \<and> (alloc_EC_KEY lib \<and> alloc_BN_CTX lib \<and> alloc_EC_POINT lib
                 \<and> EC_POINT_mul lib (priv_key e) = Some P
               \<longrightarrow> ec k' = Some (length (slots h))
                   \<and> deref h' (ec k') = Some \<lparr>priv_key = priv_key e, pub_key = Some P\<rparr>
                   \<and> hasPublic k')
            \<and> (\<not> (alloc_EC_KEY lib \<and> alloc_BN_CTX lib \<and> alloc_EC_POINT lib
                    \<and> EC_POINT_mul lib (priv_key e) \<noteq> None)
               \<longrightarrow> hasPublic k' = hasPublic k
                   \<and> deref h' (ec k')
                       = (if alloc_EC_KEY lib then Some \<lparr>priv_key = None, pub_key = None\<rparr>
                          else None)))"
proof (cases "alloc_EC_KEY lib \<and> alloc_BN_CTX lib \<and> alloc_EC_POINT lib
                \<and> EC_POINT_mul lib (priv_key e) \<noteq> None")
  case True
  then obtain Q where Q: "EC_POINT_mul lib (priv_key e) = Some Q" by auto
  from assms(3) have lt: "a < length (slots h)"
    by (simp add: deref_def split: if_splits)
  from True Q lt show ?thesis
    using assms
    by (simp add: RegenerateSync_success [OF assms _ _ _ Q] deref_def nth_append)
next
  case False
  from assms(3) have lt: "a < length (slots h)"
    by (simp add: deref_def split: if_splits)
  from False lt show ?thesis
    using assms
    by (auto simp: RegenerateSync_failure [OF assms False] deref_def nth_append)
qed

text \<open>The witness: the key with private key 3, with \<open>tiny\<close>, where the recomputation
  succeeds; with the failing multiplication; and with \<open>tiny\<close> unable to make a new
  container.\<close>

theorem RegenerateSync_effects_witness:
  "hasPrivate private_key \<and> ec private_key = Some 0
   \<and> deref private_heap (Some 0) = Some \<lparr>priv_key = Some 3, pub_key = None\<rparr>
   \<and> alloc_EC_KEY tiny \<and> alloc_BN_CTX tiny \<and> alloc_EC_POINT tiny
   \<and> EC_POINT_mul tiny (Some 3) = Some (Affine 7 8)
   \<and> EC_POINT_mul tiny_failing_mul (Some 3) = None
   \<and> (case RegenerateSync tiny (private_heap, private_key) of
         (out, h', k') \<Rightarrow>
           out = Return Undefined \<and> freed h' = [0] \<and> deref h' (Some 0) = None
         \<and> hasPrivate k' \<and> ec k' = Some 1
         \<and> deref h' (ec k') = Some \<lparr>priv_key = Some 3, pub_key = Some (Affine 7 8)\<rparr>
         \<and> hasPublic k')
   \<and> (case RegenerateSync tiny_failing_mul (private_heap, private_key) of
         (out, h', k') \<Rightarrow>
           out = Return Undefined \<and> freed h' = [0] \<and> deref h' (Some 0) = None
         \<and> hasPrivate k' \<and> ec k' = Some 1
         \<and> deref h' (ec k') = Some \<lparr>priv_key = None, pub_key = None\<rparr>
         \<and> \<not> hasPublic k')
   \<and> (case RegenerateSync (tiny\<lparr>alloc_EC_KEY := False\<rparr>) (private_heap, private_key) of
         (out, h', k') \<Rightarrow>
           out = Return Undefined \<and> freed h' = [0] \<and> deref h' (Some 0) = None
         \<and> hasPrivate k' \<and> ec k' = None \<and> deref h' (ec k') = None
         \<and> \<not> hasPublic k')"
proof -
  have p: "hasPrivate private_key" "ec private_key = Some 0" by (simp_all add: private_key_def)
  have a: "alloc_EC_KEY tiny \<and> alloc_BN_CTX tiny \<and> alloc_EC_POINT tiny"
    by (simp add: tiny_def)
  have m: "EC_POINT_mul tiny (Some 3) = Some (Affine 7 8)"
    by (simp add: tiny_def tiny_mul_3)
  have f: "EC_POINT_mul tiny_failing_mul (Some 3) = None"
      "alloc_EC_KEY tiny_failing_mul"
    by (simp_all add: tiny_failing_mul_def tiny_def)
  have g: "\<not> alloc_EC_KEY (tiny\<lparr>alloc_EC_KEY := False\<rparr>)" by simp
  have n: "\<not> hasPublic private_key" "freed private_heap = []" "length (slots private_heap) = 1"
    by (simp_all add: private_key_def private_heap_def)
  show ?thesis
    using RegenerateSync_effects [OF p private_deref, of tiny "Affine 7 8"]
      RegenerateSync_effects [OF p private_deref, of tiny_failing_mul Infinity]
      RegenerateSync_effects [OF p private_deref, of "tiny\<lparr>alloc_EC_KEY := False\<rparr>" Infinity]
      p private_deref a m f g n
    by (auto split: prod.splits)
qed

text \<open>
  Claim C4 as stated fails: the container is replaced before the recomputation, whether
  it succeeds or not.  With the failing multiplication the key ends with the new, empty
  container at address 1; the container at address 0, which held the scalar 3, has been
  released, and \<open>hasPrivate\<close> is still true.
\<close>

theorem regeneration_failure_loses_old_container:
  "hasPrivate private_key
   \<and> deref private_heap (ec private_key) = Some \<lparr>priv_key = Some 3, pub_key = None\<rparr>
   \<and> RegenerateSync tiny_failing_mul (private_heap, private_key) =
       (Return Undefined,
        \<lparr>slots = [None, Some \<lparr>priv_key = None, pub_key = None\<rparr>], freed = [0]\<rparr>,
        \<lparr>ec = Some 1, lastError = None, hasPrivate = True, hasPublic = False\<rparr>)"
  using failed_regeneration private_deref by (simp add: private_key_def)

section \<open>The public-key assignment\<close>

lemma tiny_o2i_empty:
  "o2i_ECPublicKey tiny \<lparr>priv_key = Some 3, pub_key = Some (Affine 7 8)\<rparr> [] 0
     = (False, \<lparr>priv_key = Some 3, pub_key = Some (Affine 7 8)\<rparr>)"
  by (simp add: tiny_def tiny_o2i_ECPublicKey_def tiny_oct2point_def)

text \<open>\<open>SetPublic\<close> has no path that throws.\<close>

lemma SetPublic_never_throws: "fst (SetPublic lib data st) \<noteq> Throw x"
  by (cases st) (simp add: SetPublic_def Let_def split: option.splits prod.splits)

text \<open>The decoder works on the key's own container.  On a key without a point,
  \<open>tiny\<close> (like OpenSSL) has put a point object there before it fails.\<close>

lemma SetPublic_on_private_only:
  "SetPublic tiny [] (private_heap, private_key)
     = (Return (), \<lparr>slots = [Some \<lparr>priv_key = Some 3, pub_key = Some Infinity\<rparr>], freed = []\<rparr>,
        private_key)"
  by (simp add: SetPublic_def deref_def store_def private_heap_def private_key_def tiny_def
      tiny_o2i_ECPublicKey_def tiny_oct2point_def)

text \<open>
  Claim C5 says that bytes which do not decode to a point make \<open>setPublic\<close> fail with an
  error.  The code returns normally instead (\<^verbatim>\<open>// TODO: Error\<close>): the empty Buffer, which
  \<open>tiny\<close> does not decode, assigned to the key pair gives \<open>Return ()\<close>.
\<close>

theorem SetPublic_undecodable_returns_normally:
  "fst (o2i_ECPublicKey tiny \<lparr>priv_key = Some 3, pub_key = Some (Affine 7 8)\<rparr> [] 0) = False
   \<and> SetPublic tiny [] (pair_heap, pair_key) = (Return (), pair_heap, pair_key)"
proof -
  have "SetPublic tiny [] (pair_heap, pair_key) = (Return (), pair_heap, pair_key)"
    by (simp add: SetPublic_def pair_deref tiny_o2i_empty)
       (simp add: store_def pair_heap_def pair_key_def)
  then show ?thesis by (simp add: tiny_o2i_empty)
qed

section \<open>DER export, then import\<close>

lemma BitcoinKey_ctor_eq:
  "BitcoinKey_ctor lib h =
     (if alloc_EC_KEY lib
      then (h\<lparr>slots := slots h @ [Some \<lparr>priv_key = None, pub_key = None\<rparr>]\<rparr>,
            \<lparr>ec = Some (length (slots h)), lastError = None,
              hasPrivate = False, hasPublic = False\<rparr>)
      else (h, \<lparr>ec = None, lastError = Some ''Error from EC_KEY_new_by_curve_name'',
                hasPrivate = False, hasPublic = False\<rparr>))"
  by (simp add: BitcoinKey_ctor_def EC_KEY_new_by_curve_name_def)

lemma New_eq:
  "New lib h args =
     (if alloc_EC_KEY lib
      then (Return (Object \<lparr>ec = Some (length (slots h)), lastError = None,
                            hasPrivate = False, hasPublic = False\<rparr>),
            h\<lparr>slots := slots h @ [Some \<lparr>priv_key = None, pub_key = None\<rparr>]\<rparr>)
      else (Throw (Error ''Error from EC_KEY_new_by_curve_name''), h))"
  by (simp add: New_def BitcoinKey_ctor_def EC_KEY_new_by_curve_name_def VException_def)

lemma New_result:
  assumes "New lib h args = (Return v, h')"
  shows "v = Object \<lparr>ec = Some (length (slots h)), lastError = None,
                     hasPrivate = False, hasPublic = False\<rparr>
       \<and> deref h' (Some (length (slots h))) = Some \<lparr>priv_key = None, pub_key = None\<rparr>"
proof -
  from assms have a: "alloc_EC_KEY lib"
    by (cases "alloc_EC_KEY lib") (simp_all add: New_eq)
  from assms have v: "v = Object \<lparr>ec = Some (length (slots h)), lastError = None,
                     hasPrivate = False, hasPublic = False\<rparr>"
    and h': "h' = h\<lparr>slots := slots h @ [Some \<lparr>priv_key = None, pub_key = None\<rparr>]\<rparr>"
    unfolding New_eq by (simp_all add: a)
  have "deref h' (Some (length (slots h))) = Some \<lparr>priv_key = None, pub_key = None\<rparr>"
    by (simp add: h' deref_def)
  with v show ?thesis by simp
qed

lemma FromDER_returns_New:
  assumes "FromDER lib h args = (Return v, h')"
  shows "\<exists>h2 ext. New lib h2 [ext] = (Return v, h')"
proof -
  have 1: "length args = 1"
  proof (rule ccontr)
    assume "length args \<noteq> 1"
    then have "FromDER lib h args = (VException ''One argument expected: der'', h)"
      by (simp add: FromDER_def)
    with assms show False by (simp add: VException_def)
  qed
  have 2: "is_Buffer (args ! 0)"
  proof (rule ccontr)
    assume "\<not> is_Buffer (args ! 0)"
    then have "FromDER lib h args = (VException ''Argument 'der' must be of type Buffer'', h)"
      by (simp add: FromDER_def 1)
    with assms show False by (simp add: VException_def)
  qed
  obtain h1 k where c: "BitcoinKey_ctor lib h = (h1, k)"
    by (cases "BitcoinKey_ctor lib h")
  have 3: "lastError k = None"
  proof (cases "lastError k")
    case (Some msg)
    then have "FromDER lib h args = (VException msg, h1)"
      by (simp add: FromDER_def 1 2 c)
    with assms show ?thesis by (simp add: VException_def)
  qed simp
  obtain e where 4: "deref h1 (ec k) = Some e"
  proof (cases "deref h1 (ec k)")
    case None
    then have "FromDER lib h args = (Fault, h1)"
      by (simp add: FromDER_def 1 2 c 3)
    with assms show ?thesis by simp
  qed simp
  obtain ok e' where d: "d2i_ECPrivateKey lib e (Buffer_Data (args ! 0))
                           (int (length (Buffer_Data (args ! 0)))) = (ok, e')"
    by (cases "d2i_ECPrivateKey lib e (Buffer_Data (args ! 0))
                           (int (length (Buffer_Data (args ! 0))))")
  have 5: ok
  proof (rule ccontr)
    assume "\<not> ok"
    then have "FromDER lib h args =
        (VException ''Error from d2i_ECPrivateKey(&key, &data, len)'', store h1 (ec k) e')"
      by (simp add: FromDER_def 1 2 c 3 4 d)
    with assms show False by (simp add: VException_def)
  qed
  have "FromDER lib h args =
          New lib (store h1 (ec k) e') [External (k\<lparr>hasPrivate := True, hasPublic := True\<rparr>)]"
    by (simp add: FromDER_def 1 2 c 3 4 d 5)
  with assms show ?thesis by metis
qed

text \<open>Whatever \<open>FromDER\<close> returns is a key without private and public material, on an
  empty container.\<close>

lemma FromDER_result:
  assumes "FromDER lib h args = (Return v, h')"
  shows "\<exists>a. v = Object \<lparr>ec = Some a, lastError = None, hasPrivate = False, hasPublic = False\<rparr>
             \<and> deref h' (Some a) = Some \<lparr>priv_key = None, pub_key = None\<rparr>"
proof -
  from FromDER_returns_New [OF assms]
  obtain h2 ext where "New lib h2 [ext] = (Return v, h')" by blast
  from New_result [OF this] show ?thesis by blast
qed

lemma FromDER_success:
  assumes a: "alloc_EC_KEY lib"
    and d: "d2i_ECPrivateKey lib \<lparr>priv_key = None, pub_key = None\<rparr> data (int (length data))
              = (True, e')"
  shows "FromDER lib h [Buffer data] =
           (Return (Object \<lparr>ec = Some (Suc (length (slots h))), lastError = None,
                             hasPrivate = False, hasPublic = False\<rparr>),
            \<lparr>slots = slots h @ [Some e', Some \<lparr>priv_key = None, pub_key = None\<rparr>],
              freed = freed h\<rparr>)"
proof -
  let ?h1 = "h\<lparr>slots := slots h @ [Some \<lparr>priv_key = None, pub_key = None\<rparr>]\<rparr>"
  let ?k = "\<lparr>ec = Some (length (slots h)), lastError = None,
              hasPrivate = False, hasPublic = False\<rparr>"
  have c: "BitcoinKey_ctor lib h = (?h1, ?k)" by (simp add: BitcoinKey_ctor_eq a)
  have l: "deref ?h1 (ec ?k) = Some \<lparr>priv_key = None, pub_key = None\<rparr>"
    by (simp add: deref_def)
  have s: "store ?h1 (ec ?k) e' = h\<lparr>slots := slots h @ [Some e']\<rparr>"
    by (simp add: store_def)
  have "FromDER lib h [Buffer data] =
          New lib (store ?h1 (ec ?k) e') [External (?k\<lparr>hasPrivate := True, hasPublic := True\<rparr>)]"
    by (simp add: FromDER_def is_Buffer_def Buffer_Data_def c l [simplified] d)
  then show ?thesis
    unfolding s New_eq by (simp add: a)
qed

lemma ToDER_pair: "ToDER tiny pair_heap pair_key = Return (Buffer pair_der)"
proof -
  have e: "i2d_ECPrivateKey tiny \<lparr>priv_key = Some 3, pub_key = Some (Affine 7 8)\<rparr>
             = Some pair_der"
    by (simp add: tiny_def tiny_i2d_ECPrivateKey_def pair_der_def)
  have f: "hasPrivate pair_key" "hasPublic pair_key" by (simp_all add: pair_key_def)
  have n: "pair_der \<noteq> []" by (simp add: pair_der_def)
  show ?thesis
    using n
    by (simp add: ToDER_def f pair_deref e encoded_size_def encoded_bytes_def)
qed

lemma tiny_d2i_pair:
  "d2i_ECPrivateKey tiny \<lparr>priv_key = None, pub_key = None\<rparr> pair_der (int (length pair_der))
     = (True, \<lparr>priv_key = Some 3, pub_key = Some (Affine 7 8)\<rparr>)"
  by (simp add: tiny_def tiny_d2i_ECPrivateKey_def tiny_on_curve_def pair_der_def)

text \<open>
  Claim C6 says that decoding the DER of a key pair gives a key with the same scalar and
  point and both flags true.  In the code the decoded key is wrapped and passed to the
  constructor function \<open>New\<close>, which does not look at its arguments and makes a new key:
  the DER of the key pair of \<open>tiny\<close> decodes (the decoded material is in slot 2), but the
  key returned is the one on the empty container in slot 3, with both flags false, and
  its \<open>GetPrivate\<close> and \<open>GetPublic\<close> are \<open>Null\<close>.
\<close>

theorem FromDER_of_ToDER_is_an_empty_key:
  "ToDER tiny pair_heap pair_key = Return (Buffer pair_der)
   \<and> FromDER tiny pair_heap [Buffer pair_der]
      = (Return (Object \<lparr>ec = Some 3, lastError = None, hasPrivate = False, hasPublic = False\<rparr>),
         \<lparr>slots = [None, Some \<lparr>priv_key = Some 3, pub_key = Some (Affine 7 8)\<rparr>,
                   Some \<lparr>priv_key = Some 3, pub_key = Some (Affine 7 8)\<rparr>,
                   Some \<lparr>priv_key = None, pub_key = None\<rparr>],
           freed = [0]\<rparr>)
   \<and> GetPrivate tiny (snd (FromDER tiny pair_heap [Buffer pair_der]))
        \<lparr>ec = Some 3, lastError = None, hasPrivate = False, hasPublic = False\<rparr> = Return Null
   \<and> GetPublic tiny (snd (FromDER tiny pair_heap [Buffer pair_der]))
        \<lparr>ec = Some 3, lastError = None, hasPrivate = False, hasPublic = False\<rparr> = Return Null"
proof -
  have a: "alloc_EC_KEY tiny" by (simp add: tiny_def)
  have "FromDER tiny pair_heap [Buffer pair_der]
      = (Return (Object \<lparr>ec = Some 3, lastError = None, hasPrivate = False, hasPublic = False\<rparr>),
         \<lparr>slots = [None, Some \<lparr>priv_key = Some 3, pub_key = Some (Affine 7 8)\<rparr>,
                   Some \<lparr>priv_key = Some 3, pub_key = Some (Affine 7 8)\<rparr>,
                   Some \<lparr>priv_key = None, pub_key = None\<rparr>],
           freed = [0]\<rparr>)"
    unfolding FromDER_success [OF a tiny_d2i_pair]
    by (simp add: pair_heap_def)
  with ToDER_pair show ?thesis
    by (simp add: GetPrivate_def GetPublic_def)
qed

section \<open>Reading the private key\<close>

lemma length_BN_bn2bin: "length (BN_bn2bin n) = BN_num_bytes n"
proof (induction n rule: BN_num_bytes.induct)
  case (1 n)
  show ?case
  proof (cases "n = 0")
    case True
    then show ?thesis by (simp add: BN_bn2bin.simps BN_num_bytes.simps)
  next
    case False
    with 1 show ?thesis
      by (subst BN_bn2bin.simps, subst BN_num_bytes.simps) simp
  qed
qed

lemma GetPrivate_eq:
  assumes "hasPrivate k" and "deref h (ec k) = Some e" and "priv_key e = Some bn"
  shows "GetPrivate lib h k =
           (if 32 < BN_num_bytes bn then Return Null
            else Return (Buffer (take (32 - BN_num_bytes bn) (malloc lib 32) @ BN_bn2bin bn)))"
  using assms
  by (simp add: GetPrivate_def Let_def write_at_def length_BN_bn2bin malloc_def)

lemma wide_state:
  "snd (SetPrivate (1 # replicate 32 0) (BitcoinKey_ctor tiny heap0))
     = (\<lparr>slots = [Some \<lparr>priv_key = Some (2 ^ 256), pub_key = None\<rparr>], freed = []\<rparr>,
        \<lparr>ec = Some 0, lastError = None, hasPrivate = True, hasPublic = False\<rparr>)"
proof -
  have d: "deref \<lparr>slots = [Some \<lparr>priv_key = None, pub_key = None\<rparr>], freed = []\<rparr>
             (ec \<lparr>ec = Some 0, lastError = None, hasPrivate = False, hasPublic = False\<rparr>)
           = Some \<lparr>priv_key = None, pub_key = None\<rparr>"
    by (simp add: deref_def)
  have l: "length (1 # replicate 32 (0 :: byte)) < 2 ^ 31" by simp
  show ?thesis
    unfolding ctor_tiny SetPrivate_eq [OF d l] big_endian_wide
    by (simp add: store_def)
qed

lemma num_bytes_wide: "BN_num_bytes (2 ^ 256) = 33"
  by (simp add: BN_num_bytes.simps)

lemma GetPrivate_padding:
  "GetPrivate tiny private_heap private_key = Return (Buffer (replicate 31 0xAA @ [3]))"
proof -
  have p: "hasPrivate private_key" by (simp add: private_key_def)
  have d: "deref private_heap (ec private_key) = Some \<lparr>priv_key = Some 3, pub_key = None\<rparr>"
    by (simp add: deref_def private_heap_def private_key_def)
  have n: "BN_num_bytes 3 = 1" by (simp add: BN_num_bytes.simps)
  have b: "BN_bn2bin 3 = [3]" by (simp add: BN_bn2bin.simps)
  have m: "malloc tiny 32 = replicate 32 0xAA"
    by (simp add: malloc_def tiny_def map_replicate_const)
  show ?thesis
    by (simp add: GetPrivate_eq [OF p d] n b m)
qed

text \<open>
  Claim C7 says that \<open>getPrivate\<close> fails with an error, distinguishable from "absent",
  when the scalar needs more than 32 bytes, and that shorter scalars are padded with
  zeros.  In the code the first is a \<open>Null\<close> (\<^verbatim>\<open>// TODO: ERROR: "Secret too large"\<close>): a
  key assigned the 33 bytes \<open>01 00 \<dots> 00\<close> holds the scalar \<open>2\<^sup>2\<^sup>5\<^sup>6\<close>, and \<open>GetPrivate\<close>
  returns \<open>Null\<close>, as it does for a key without a private key.  And the padding is what
  \<^verbatim>\<open>malloc\<close> left in the block: for the scalar 3, with \<open>AA\<close> in fresh memory, the result
  is 31 bytes \<open>AA\<close> and then \<open>03\<close>.
\<close>

theorem GetPrivate_oversized_scalar_is_null:
  "(case snd (SetPrivate (1 # replicate 32 0) (BitcoinKey_ctor tiny heap0)) of
      (h, k) \<Rightarrow>
        hasPrivate k
      \<and> map_option priv_key (deref h (ec k)) = Some (Some (2 ^ 256))
      \<and> BN_num_bytes (2 ^ 256) = 33
      \<and> GetPrivate tiny h k = Return Null
      \<and> GetPrivate tiny h (k\<lparr>hasPrivate := False\<rparr>) = Return Null)
   \<and> GetPrivate tiny private_heap private_key = Return (Buffer (replicate 31 0xAA @ [3]))"
proof -
  have "(case snd (SetPrivate (1 # replicate 32 0) (BitcoinKey_ctor tiny heap0)) of
      (h, k) \<Rightarrow>
        hasPrivate k
      \<and> map_option priv_key (deref h (ec k)) = Some (Some (2 ^ 256))
      \<and> BN_num_bytes (2 ^ 256) = 33
      \<and> GetPrivate tiny h k = Return Null
      \<and> GetPrivate tiny h (k\<lparr>hasPrivate := False\<rparr>) = Return Null)"
    unfolding wide_state
    by (simp add: GetPrivate_def deref_def num_bytes_wide [simplified])
  with GetPrivate_padding show ?thesis by simp
qed

end
